theory Spec2Isabelle
  imports Complex_Main
begin

section \<open>The EdgeX maker-order trading bot (runbot.py)\<close>

text \<open>
  A shallow embedding of the trading bot of \<^verbatim>\<open>runbot.py\<close>: the inventory risk manager
  (\<^verbatim>\<open>LowCostInventoryManager\<close>), the order-update handler, the placement of open, close
  and hedge orders with its retries, the volatility gate, the wait-time throttle, the monitoring of an
  open order and the periodic reconciliation check, in the order of the source.

  Python floats are modelled as \<^typ>\<open>real\<close>: comparisons and sums are exact, rounding
  error of the binary representation is not part of the model. Python strings are
  \<^typ>\<open>string\<close>. Every exception that the source catches is a branch of the model. A
  function that calls the exchange takes the answers of the exchange as arguments and
  returns the calls it made; logging is left out.
\<close>

subsection \<open>Python numbers and strings\<close>

text \<open>
  A field that the source passes through \<^verbatim>\<open>float(d.get(key, 0))\<close>: the key may be
  missing (the default is used), hold a number, or hold something \<^verbatim>\<open>float\<close> rejects,
  in which case the call raises (\<open>None\<close>).
\<close>

datatype num_field = Missing | Num real | Malformed

fun float_get :: "num_field \<Rightarrow> real \<Rightarrow> real option" where
  "float_get Missing d = Some d"
| "float_get (Num r) d = Some r"
| "float_get Malformed d = None"

text \<open>
  Python's \<^verbatim>\<open>round(x)\<close> rounds to the nearest integer, ties to the even one, and
  \<^verbatim>\<open>round(x, n)\<close> does the same at \<open>n\<close> decimal places.
\<close>

definition py_round :: "real \<Rightarrow> int" where
  "py_round x =
     (let f = \<lfloor>x\<rfloor>; d = x - of_int f in
      if d < 1 / 2 then f else if d > 1 / 2 then f + 1 else if even f then f else f + 1)"

definition py_round_digits :: "real \<Rightarrow> nat \<Rightarrow> real" where
  "py_round_digits x n = of_int (py_round (x * 10 ^ n)) / 10 ^ n"

definition round_price_to_step :: "real \<Rightarrow> real \<Rightarrow> real" where
  "round_price_to_step price step_size =
     (if step_size \<le> 0 then price
      else if step_size = 0.1 then
        py_round_digits (of_int (py_round (price / step_size)) * step_size) 1
      else if step_size = 0.01 then
        py_round_digits (of_int (py_round (price / step_size)) * step_size) 2
      else py_round_digits (of_int (py_round (price / step_size)) * step_size) 8)"

text \<open>\<^verbatim>\<open>str.upper\<close> and \<^verbatim>\<open>str.lower\<close> on the ASCII letters.\<close>

definition upper_char :: "char \<Rightarrow> char" where
  "upper_char c =
     (case map_of (zip ''abcdefghijklmnopqrstuvwxyz'' ''ABCDEFGHIJKLMNOPQRSTUVWXYZ'') c of
        Some u \<Rightarrow> u
      | None \<Rightarrow> c)"

definition lower_char :: "char \<Rightarrow> char" where
  "lower_char c =
     (case map_of (zip ''ABCDEFGHIJKLMNOPQRSTUVWXYZ'' ''abcdefghijklmnopqrstuvwxyz'') c of
        Some l \<Rightarrow> l
      | None \<Rightarrow> c)"

definition upper :: "string \<Rightarrow> string" where
  "upper s = map upper_char s"

definition lower :: "string \<Rightarrow> string" where
  "lower s = map lower_char s"

subsection \<open>Configuration\<close>

text \<open>\<^verbatim>\<open>TradingConfig\<close> (a dataclass) with its property \<^verbatim>\<open>close_order_side\<close>.\<close>

record TradingConfig =
  contract_id :: string
  quantity :: real
  take_profit_percentage :: real
  direction :: string
  max_orders :: int
  wait_time :: real

definition close_order_side :: "'a TradingConfig_scheme \<Rightarrow> string" where
  "close_order_side cfg = (if direction cfg = ''sell'' then ''buy'' else ''sell'')"

text \<open>The per-contract entries of the application configuration, defaults applied.\<close>

record contract_config =
  price_delta :: real
  step_size :: real

subsection \<open>Inventory risk manager\<close>

text \<open>
  \<^verbatim>\<open>LowCostInventoryManager\<close>: the object holds \<^verbatim>\<open>base_quantity\<close> and the dictionary
  \<^verbatim>\<open>inventory_layers\<close> with the keys safe, caution, danger and emergency; every method
  below takes the base quantity as its first argument.
\<close>

datatype layer = safe | caution | danger | emergency

fun inventory_layers :: "real \<Rightarrow> layer \<Rightarrow> real" where
  "inventory_layers base_quantity safe = 2 * base_quantity"
| "inventory_layers base_quantity caution = 4 * base_quantity"
| "inventory_layers base_quantity danger = 6 * base_quantity"
| "inventory_layers base_quantity emergency = 8 * base_quantity"

datatype strategy = normal | reduce_same_side | opposite_only | pause

definition get_trading_strategy :: "real \<Rightarrow> real \<Rightarrow> strategy" where
  "get_trading_strategy base_quantity current_inventory =
     (let abs_inventory = \<bar>current_inventory\<bar> in
      if abs_inventory < inventory_layers base_quantity safe then normal
      else if abs_inventory < inventory_layers base_quantity caution then reduce_same_side
      else if abs_inventory < inventory_layers base_quantity danger then opposite_only
      else pause)"

definition get_inventory_direction_bias :: "real \<Rightarrow> real \<Rightarrow> string option" where
  "get_inventory_direction_bias base_quantity current_inventory =
     (if current_inventory > base_quantity * 2 then Some ''sell''
      else if current_inventory < - base_quantity * 2 then Some ''buy''
      else None)"

definition should_emergency_hedge :: "real \<Rightarrow> real \<Rightarrow> bool" where
  "should_emergency_hedge base_quantity current_inventory \<longleftrightarrow>
     \<bar>current_inventory\<bar> > inventory_layers base_quantity emergency"

definition get_hedge_batch_size :: "real \<Rightarrow> real \<Rightarrow> real" where
  "get_hedge_batch_size base_quantity current_inventory =
     (let abs_inventory = \<bar>current_inventory\<bar> in min (base_quantity * 3) abs_inventory)"

subsection \<open>The exchange: responses and calls\<close>

text \<open>
  The bot talks to the exchange through the SDK client. Each call site of the source gets
  the response of that call as an argument of the model; the calls made are returned as a
  trace of \<open>action\<close>s, in order. A response type has one constructor for each shape the
  source distinguishes, including the call raising an exception.
\<close>

datatype OrderSide = BUY | SELL

datatype action =
    GetOrderBookDepth
  | CreateLimitOrder string real real OrderSide bool
      \<comment> \<open>contract id, size, price, side, post-only flag\<close>
  | GetOrderById string
  | CancelOrder string
  | GetActiveOrders
  | GetAccountPositions
  | Get24HourQuote
  | WaitOrderFilledEvent real
      \<comment> \<open>\<^verbatim>\<open>asyncio.wait_for(self.order_filled_event.wait(), timeout=...)\<close>\<close>

text \<open>
  \<^verbatim>\<open>get_order_book_depth\<close>: the response is not a dictionary with the key data, its data
  is not a non-empty list, the first entry is not a dictionary, or the first entry gives the
  bids and asks (missing keys read as empty lists). A price level is the result of
  \<^verbatim>\<open>float(level['price'])\<close>, \<open>None\<close> if that raises.
\<close>

type_synonym level = "real option"

datatype book_result =
    BookRaises
  | BookNoData
  | BookDataInvalid
  | BookEntryNotADict
  | BookEntry (bids: "level list") (asks: "level list")

text \<open>
  \<^verbatim>\<open>create_limit_order\<close>: it raises, returns a falsy value or a dictionary without
  data, or returns data with or without an order id.
\<close>

datatype create_result = CreateRaises | CreateNoData | CreateData "string option"

text \<open>
  \<^verbatim>\<open>get_order_by_id\<close>: it raises, returns nothing usable, or returns the list of the
  orders asked for. Of an order the bot reads the status, the price, the cumulated fill
  size and the side.
\<close>

record order_data =
  od_status :: "string option"
  od_price :: num_field
  od_cumFillSize :: num_field
  od_side :: "string option"

datatype order_by_id_result = InfoRaises | InfoNoData | InfoData "order_data list"

text \<open>\<^verbatim>\<open>cancel_order\<close>: it raises, returns nothing usable, or returns data.\<close>

datatype cancel_result = CancelRaises | CancelNoData | CancelData

text \<open>
  \<^verbatim>\<open>get_account_positions\<close> of the client: it raises, or returns a falsy value, a
  dictionary without the key data, one whose data is not a dictionary, or one whose data
  holds the position list (a missing \<^verbatim>\<open>positionList\<close> reads as the empty list).
\<close>

datatype position =
    PositionNotADict
  | Position (p_contractId: "string option") (p_openSize: num_field) (p_side: "string option")

datatype positions_result =
    PositionsRaises
  | PositionsFalsy
  | PositionsNoData
  | PositionsDataNotADict
  | PositionsData "position list"

text \<open>
  \<^verbatim>\<open>get_active_orders\<close>: it raises, returns nothing usable, data that is not a
  dictionary, or data with the list of orders (a missing \<^verbatim>\<open>dataList\<close> reads as the empty
  list).
\<close>

datatype active_order =
    ActiveOrderNotADict
  | ActiveOrder (a_contractId: "string option") (a_id: "string option")
      (a_side: "string option") (a_size: num_field)

datatype active_orders_result =
    ActiveRaises
  | ActiveNoData
  | ActiveDataNotADict
  | ActiveData "active_order list"

text \<open>
  \<^verbatim>\<open>get_24_hour_quote\<close>: it raises, returns a falsy value, a dictionary without data, one
  whose code is not SUCCESS, one whose data is not a list, or the list of tickers. A ticker
  is a dictionary with the field \<^verbatim>\<open>priceChangePercent\<close>, or something else.
\<close>

datatype ticker = TickerNotADict | Ticker num_field

datatype quote_result =
    QuoteRaises
  | QuoteFalsy
  | QuoteNoData
  | QuoteNotSuccess
  | QuoteDataNotAList
  | QuoteData "ticker list"

text \<open>
  A message of the private push feed: something \<^verbatim>\<open>json.loads\<close> rejects, or a message
  with the event name of its content and the list \<^verbatim>\<open>data.order\<close>.
\<close>

record ws_order =
  w_contractId :: "string option"
  w_id :: "string option"
  w_status :: "string option"
  w_side :: "string option"

datatype ws_message = NotJson | Message string "ws_order list"

subsection \<open>The state of the bot\<close>

text \<open>
  An entry of \<^verbatim>\<open>active_close_orders\<close>: the dictionary built from an active order (its
  price, which no function modelled here reads, is left out).
\<close>

record tracked_order =
  t_id :: "string option"
  t_size :: num_field
  t_side :: string

text \<open>
  An entry of \<^verbatim>\<open>btc_price_history\<close>: the price (the key \<^verbatim>\<open>price\<close> of the source) and
  the time it was recorded. The history is an argument of the volatility check.
\<close>

record price_record =
  btc_price :: real
  timestamp :: real

text \<open>
  The trading state of the bot object, as far as the functions modelled here read and
  write it; \<^verbatim>\<open>order_filled_event\<close> is set or not.
\<close>

record bot_state =
  active_close_orders :: "tracked_order list"
  last_close_orders :: int
  last_open_order_time :: real
  last_log_time :: real
  current_order_status :: string
  order_filled_event :: bool
  shutdown_requested :: bool

subsection \<open>Order-update handler\<close>

text \<open>
  \<^verbatim>\<open>order_update_handler\<close>, the callback for the messages of the private push feed.
  Logging apart, its only effect is to set the fill event. An exception inside leaves the
  state as it is.
\<close>

definition order_update_handler ::
  "'a TradingConfig_scheme \<Rightarrow> ws_message \<Rightarrow> 'b bot_state_scheme \<Rightarrow> 'b bot_state_scheme" where
  "order_update_handler cfg message st =
     (case message of
        NotJson \<Rightarrow> st
      | Message event ws_orders \<Rightarrow>
          (if event = ''ORDER_UPDATE'' then
             (case ws_orders of
                [] \<Rightarrow> st
              | order # others \<Rightarrow>
                  (if w_contractId order \<noteq> Some (contract_id cfg) then st
                   else
                     (let order_type =
                            (if w_side order = Some (upper (close_order_side cfg)) then ''CLOSE''
                             else ''OPEN'')
                      in if w_status order = Some ''FILLED'' then
                           (if order_type = ''OPEN'' then st\<lparr>order_filled_event := True\<rparr>
                            else st)
                         else st)))
           else st))"

subsection \<open>Order placement\<close>

text \<open>
  The dictionaries the placement functions return: status error with a message, which is
  either a literal of the source or \<^verbatim>\<open>str(e)\<close> of a caught exception, or status ok with
  the data of the order. The side in the data is the \<^verbatim>\<open>value\<close> of the SDK's enum for an
  open order and the text the caller passed for a close or hedge order.
\<close>

datatype err_msg = Msg string | StrOfException

datatype side_repr = SideValue OrderSide | SideText string

record placed_order =
  order_id :: string
  side :: side_repr
  size :: real
  price :: real
  status :: "string option"

datatype place_result = StatusError err_msg | StatusOk placed_order

fun is_ok :: "place_result \<Rightarrow> bool" where
  "is_ok (StatusOk d) = True"
| "is_ok (StatusError e) = False"

text \<open>
  The bot's \<^verbatim>\<open>get_order_info\<close>: the first order of the answer, or the empty dictionary
  (\<open>None\<close>) on every failure of the query.
\<close>

fun get_order_info :: "order_by_id_result \<Rightarrow> order_data option" where
  "get_order_info (InfoData (d # ds)) = Some d"
| "get_order_info r = None"

text \<open>
  What the exchange answers during one round of a placement loop: to the order-book read,
  to the submission and to the status read that follows it.
\<close>

record attempt =
  at_book :: book_result
  at_created :: create_result
  at_info :: order_by_id_result

text \<open>
  How one round of the loop ends: with a \<^verbatim>\<open>return\<close>, with the order reported CANCELED,
  or with an exception caught by the \<^verbatim>\<open>except\<close> branch of the loop.
\<close>

datatype attempt_outcome = Return place_result | Canceled | Raised

definition max_retries :: nat where
  "max_retries = 15"

definition open_order_price :: "contract_config \<Rightarrow> string \<Rightarrow> real \<Rightarrow> real \<Rightarrow> real" where
  "open_order_price cc dir best_bid best_ask =
     round_price_to_step
       (if dir = ''buy'' then best_ask - price_delta cc else best_bid + price_delta cc)
       (step_size cc)"

definition open_order_side :: "string \<Rightarrow> OrderSide" where
  "open_order_side dir = (if dir = ''buy'' then BUY else SELL)"

text \<open>A status as the f-string of an error message prints it.\<close>

definition status_text :: "string option \<Rightarrow> string" where
  "status_text st = (case st of None \<Rightarrow> ''None'' | Some s \<Rightarrow> s)"

text \<open>
  One round of the loop of \<^verbatim>\<open>place_open_order\<close>: \<open>open_attempt\<close> reads the book and
  prices the order, \<open>open_submitted\<close> is the round from the answer to the submission on.
\<close>

definition open_submitted ::
  "string \<Rightarrow> real \<Rightarrow> real \<Rightarrow> OrderSide \<Rightarrow> create_result \<Rightarrow> order_by_id_result \<Rightarrow>
   attempt_outcome \<times> action list" where
  "open_submitted cid qty order_price sd created info =
     (let submit = [GetOrderBookDepth, CreateLimitOrder cid qty order_price sd True] in
      case created of
        CreateRaises \<Rightarrow> (Raised, submit)
      | CreateNoData \<Rightarrow> (Return (StatusError (Msg ''Failed to place order'')), submit)
      | CreateData None \<Rightarrow> (Return (StatusError (Msg ''No order ID in response'')), submit)
      | CreateData (Some i) \<Rightarrow>
          (if i = [] then (Return (StatusError (Msg ''No order ID in response'')), submit)
           else
             (case get_order_info info of
                None \<Rightarrow>
                  (Return (StatusOk \<lparr>order_id = i, side = SideValue sd, size = qty,
                             price = order_price, status = None\<rparr>),
                   submit @ [GetOrderById i])
              | Some order_data \<Rightarrow>
                  (if od_status order_data = Some ''CANCELED'' then
                     (Canceled, submit @ [GetOrderById i])
                   else if od_status order_data = Some ''OPEN''
                        \<or> od_status order_data = Some ''PARTIALLY_FILLED''
                        \<or> od_status order_data = Some ''FILLED'' then
                     (Return (StatusOk \<lparr>order_id = i, side = SideValue sd, size = qty,
                                price = order_price, status = od_status order_data\<rparr>),
                      submit @ [GetOrderById i])
                   else
                     (Return (StatusError
                        (Msg (''Unexpected order status: '' @ status_text (od_status order_data)))),
                      submit @ [GetOrderById i])))))"

definition open_attempt ::
  "contract_config \<Rightarrow> string \<Rightarrow> real \<Rightarrow> string \<Rightarrow> attempt \<Rightarrow> attempt_outcome \<times> action list" where
  "open_attempt cc cid qty dir a =
     (case at_book a of
        BookRaises \<Rightarrow> (Raised, [GetOrderBookDepth])
      | BookNoData \<Rightarrow>
          (Return (StatusError (Msg ''Unexpected order book response format'')),
           [GetOrderBookDepth])
      | BookDataInvalid \<Rightarrow>
          (Return (StatusError (Msg ''Order book data is not a valid list'')),
           [GetOrderBookDepth])
      | BookEntryNotADict \<Rightarrow>
          (Return (StatusError (Msg ''Order book entry is not a dict'')), [GetOrderBookDepth])
      | BookEntry bs as \<Rightarrow>
          (if bs = [] \<or> as = [] then
             (Return (StatusError (Msg ''No bid/ask data available'')), [GetOrderBookDepth])
           else
             (case (hd bs, hd as) of
                (Some best_bid, Some best_ask) \<Rightarrow>
                  (if best_bid \<le> 0 \<or> best_ask \<le> 0 then
                     (Return (StatusError (Msg ''Invalid bid/ask prices'')), [GetOrderBookDepth])
                   else
                     open_submitted cid qty (open_order_price cc dir best_bid best_ask)
                       (open_order_side dir) (at_created a) (at_info a))
              | _ \<Rightarrow> (Raised, [GetOrderBookDepth]))))"

text \<open>The calls of a round go in front of the calls of the rounds after it.\<close>

fun after_calls :: "action list \<Rightarrow> place_result \<times> action list \<Rightarrow> place_result \<times> action list" where
  "after_calls calls (r, rest) = (r, calls @ rest)"

text \<open>
  The \<^verbatim>\<open>while retry_count < max_retries\<close> loop of \<^verbatim>\<open>place_open_order\<close>; \<open>responses k\<close>
  is what the exchange answers in the round with \<^verbatim>\<open>retry_count = k\<close>.
\<close>

function place_open_order_from ::
  "contract_config \<Rightarrow> string \<Rightarrow> real \<Rightarrow> string \<Rightarrow> (nat \<Rightarrow> attempt) \<Rightarrow> nat \<Rightarrow>
   place_result \<times> action list" where
  "place_open_order_from cc cid qty dir responses retry_count =
     (if retry_count < max_retries then
        (case open_attempt cc cid qty dir (responses retry_count) of
           (Return r, calls) \<Rightarrow> (r, calls)
         | (Canceled, calls) \<Rightarrow>
             (if retry_count < max_retries - 1 then
                after_calls calls
                  (place_open_order_from cc cid qty dir responses (retry_count + 1))
              else (StatusError (Msg ''Order rejected after 15 attempts''), calls))
         | (Raised, calls) \<Rightarrow>
             (if retry_count < max_retries - 1 then
                after_calls calls
                  (place_open_order_from cc cid qty dir responses (retry_count + 1))
              else (StatusError StrOfException, calls)))
      else (StatusError (Msg ''Max retries exceeded''), []))"
  by pat_completeness auto
termination
  by (relation "measure (\<lambda>(cc, cid, qty, dir, responses, retry_count). max_retries - retry_count)")
    auto

declare place_open_order_from.simps [simp del]

definition place_open_order ::
  "contract_config \<Rightarrow> string \<Rightarrow> real \<Rightarrow> string \<Rightarrow> (nat \<Rightarrow> attempt) \<Rightarrow>
   place_result \<times> action list" where
  "place_open_order cc cid qty dir responses = place_open_order_from cc cid qty dir responses 0"

text \<open>
  \<^verbatim>\<open>place_close_order\<close> for the price \<open>p\<close> and the side \<open>sd\<close> that the caller asks for:
  the side and the price of the order submitted, the round from the answer to the
  submission on, the round, and the loop.
\<close>

definition close_order_side_of :: "string \<Rightarrow> OrderSide" where
  "close_order_side_of sd = (if lower sd = ''buy'' then BUY else SELL)"

definition close_order_price ::
  "contract_config \<Rightarrow> real \<Rightarrow> string \<Rightarrow> real \<Rightarrow> real \<Rightarrow> real" where
  "close_order_price cc p sd best_bid best_ask =
     round_price_to_step
       (if lower sd = ''sell'' then (if p \<le> best_bid then best_bid + price_delta cc else p)
        else if lower sd = ''buy'' then (if p \<ge> best_ask then best_ask - price_delta cc else p)
        else p)
       (step_size cc)"

definition close_submitted ::
  "string \<Rightarrow> real \<Rightarrow> real \<Rightarrow> string \<Rightarrow> create_result \<Rightarrow> order_by_id_result \<Rightarrow>
   attempt_outcome \<times> action list" where
  "close_submitted cid qty adjusted_price sd created info =
     (let submit = [GetOrderBookDepth,
                    CreateLimitOrder cid qty adjusted_price (close_order_side_of sd) True] in
      case created of
        CreateRaises \<Rightarrow> (Raised, submit)
      | CreateNoData \<Rightarrow> (Return (StatusError (Msg ''Failed to place order'')), submit)
      | CreateData None \<Rightarrow> (Return (StatusError (Msg ''No order ID in response'')), submit)
      | CreateData (Some i) \<Rightarrow>
          (if i = [] then (Return (StatusError (Msg ''No order ID in response'')), submit)
           else
             (case get_order_info info of
                None \<Rightarrow>
                  (Return (StatusOk \<lparr>order_id = i, side = SideText sd, size = qty,
                             price = adjusted_price, status = None\<rparr>),
                   submit @ [GetOrderById i])
              | Some order_data \<Rightarrow>
                  (if od_status order_data = Some ''CANCELED'' then
                     (Canceled, submit @ [GetOrderById i])
                   else if od_status order_data = Some ''OPEN''
                        \<or> od_status order_data = Some ''PARTIALLY_FILLED''
                        \<or> od_status order_data = Some ''FILLED'' then
                     (Return (StatusOk \<lparr>order_id = i, side = SideText sd, size = qty,
                                price = adjusted_price, status = od_status order_data\<rparr>),
                      submit @ [GetOrderById i])
                   else
                     (Return (StatusError
                        (Msg (''Unexpected close order status: ''
                              @ status_text (od_status order_data)))),
                      submit @ [GetOrderById i])))))"

definition close_attempt ::
  "contract_config \<Rightarrow> string \<Rightarrow> real \<Rightarrow> real \<Rightarrow> string \<Rightarrow> attempt \<Rightarrow>
   attempt_outcome \<times> action list" where
  "close_attempt cc cid qty p sd a =
     (case at_book a of
        BookRaises \<Rightarrow> (Raised, [GetOrderBookDepth])
      | BookNoData \<Rightarrow>
          (Return (StatusError (Msg ''Failed to get order book'')), [GetOrderBookDepth])
      | BookDataInvalid \<Rightarrow>
          (Return (StatusError (Msg ''Invalid order book data'')), [GetOrderBookDepth])
      | BookEntryNotADict \<Rightarrow> (Raised, [GetOrderBookDepth])
      | BookEntry bs as \<Rightarrow>
          (if bs = [] \<or> as = [] then
             (Return (StatusError (Msg ''No bid/ask data available'')), [GetOrderBookDepth])
           else
             (case (hd bs, hd as) of
                (Some best_bid, Some best_ask) \<Rightarrow>
                  (if best_bid \<le> 0 \<or> best_ask \<le> 0 then
                     (Return (StatusError (Msg ''Invalid bid/ask prices'')), [GetOrderBookDepth])
                   else
                     close_submitted cid qty (close_order_price cc p sd best_bid best_ask) sd
                       (at_created a) (at_info a))
              | _ \<Rightarrow> (Raised, [GetOrderBookDepth]))))"

function place_close_order_from ::
  "contract_config \<Rightarrow> string \<Rightarrow> real \<Rightarrow> real \<Rightarrow> string \<Rightarrow> (nat \<Rightarrow> attempt) \<Rightarrow> nat \<Rightarrow>
   place_result \<times> action list" where
  "place_close_order_from cc cid qty p sd responses retry_count =
     (if retry_count < max_retries then
        (case close_attempt cc cid qty p sd (responses retry_count) of
           (Return r, calls) \<Rightarrow> (r, calls)
         | (Canceled, calls) \<Rightarrow>
             (if retry_count < max_retries - 1 then
                after_calls calls
                  (place_close_order_from cc cid qty p sd responses (retry_count + 1))
              else (StatusError (Msg ''Close order rejected after 15 attempts''), calls))
         | (Raised, calls) \<Rightarrow>
             (if retry_count < max_retries - 1 then
                after_calls calls
                  (place_close_order_from cc cid qty p sd responses (retry_count + 1))
              else (StatusError StrOfException, calls)))
      else (StatusError (Msg ''Max retries exceeded for close order''), []))"
  by pat_completeness auto
termination
  by (relation
      "measure (\<lambda>(cc, cid, qty, p, sd, responses, retry_count). max_retries - retry_count)")
    auto

declare place_close_order_from.simps [simp del]

definition place_close_order ::
  "contract_config \<Rightarrow> string \<Rightarrow> real \<Rightarrow> real \<Rightarrow> string \<Rightarrow> (nat \<Rightarrow> attempt) \<Rightarrow>
   place_result \<times> action list" where
  "place_close_order cc cid qty p sd responses =
     place_close_order_from cc cid qty p sd responses 0"

text \<open>
  The bot's \<^verbatim>\<open>cancel_order\<close>; the result tells whether it reports status ok.
\<close>

fun cancel_order :: "cancel_result \<Rightarrow> bool" where
  "cancel_order CancelData = True"
| "cancel_order r = False"

subsection \<open>Positions and inventory\<close>

text \<open>
  The bot's \<^verbatim>\<open>get_active_orders\<close> keeps the dictionaries of the contract and returns the
  empty list on every failure of the query.
\<close>

fun is_order_of :: "string \<Rightarrow> active_order \<Rightarrow> bool" where
  "is_order_of cid ActiveOrderNotADict = False"
| "is_order_of cid (ActiveOrder c i sd sz) = (c = Some cid)"

fun get_active_orders :: "string \<Rightarrow> active_orders_result \<Rightarrow> active_order list" where
  "get_active_orders cid (ActiveData order_list) = filter (is_order_of cid) order_list"
| "get_active_orders cid r = []"

text \<open>
  The bot's \<^verbatim>\<open>get_account_positions\<close> turns an exception of the query into the empty
  dictionary.
\<close>

fun get_account_positions :: "positions_result \<Rightarrow> positions_result" where
  "get_account_positions PositionsRaises = PositionsFalsy"
| "get_account_positions r = r"

text \<open>
  The loop of \<^verbatim>\<open>get_current_inventory\<close> over the position list; \<open>None\<close> is the
  exception of \<^verbatim>\<open>float\<close> on the first entry of the contract.
\<close>

fun find_open_size :: "string \<Rightarrow> position list \<Rightarrow> real option" where
  "find_open_size cid [] = Some 0"
| "find_open_size cid (PositionNotADict # ps) = find_open_size cid ps"
| "find_open_size cid (Position c sz sd # ps) =
     (if c = Some cid then
        (case float_get sz 0 of
           None \<Rightarrow> None
         | Some open_size \<Rightarrow>
             (let side = (case sd of None \<Rightarrow> ''LONG'' | Some x \<Rightarrow> x) in
              Some (if side = ''SHORT'' then - open_size else open_size)))
      else find_open_size cid ps)"

definition get_current_inventory :: "'a TradingConfig_scheme \<Rightarrow> positions_result \<Rightarrow> real" where
  "get_current_inventory cfg res =
     (case get_account_positions res of
        PositionsData positions \<Rightarrow>
          (if positions = [] then 0
           else (case find_open_size (contract_id cfg) positions of
                   None \<Rightarrow> 0
                 | Some v \<Rightarrow> v))
      | PositionsDataNotADict \<Rightarrow> 0
      | _ \<Rightarrow> 0)"

subsection \<open>Emergency hedge\<close>

text \<open>
  The price of \<^verbatim>\<open>place_hedge_order\<close> once best bid and best ask are read; \<open>None\<close> is an
  exception of \<^verbatim>\<open>float\<close> on the second or third level.
\<close>

definition hedge_price ::
  "real \<Rightarrow> string \<Rightarrow> bool \<Rightarrow> level list \<Rightarrow> level list \<Rightarrow> real \<Rightarrow> real \<Rightarrow> real option" where
  "hedge_price step dir aggressive bs as best_bid best_ask =
     (if dir = ''sell'' then
        (if aggressive then
           (if length bs \<ge> 3 then bs ! 2
            else if length bs \<ge> 2 then bs ! 1
            else Some (best_bid - step))
         else Some (best_bid + step))
      else
        (if aggressive then
           (if length as \<ge> 3 then as ! 2
            else if length as \<ge> 2 then as ! 1
            else Some (best_ask + step))
         else Some (best_ask - step)))"

definition hedge_side :: "string \<Rightarrow> OrderSide" where
  "hedge_side dir = (if dir = ''sell'' then SELL else BUY)"

text \<open>The last step of \<^verbatim>\<open>place_hedge_order\<close>: the answer to the submission.\<close>

fun hedge_submitted :: "string \<Rightarrow> real \<Rightarrow> real \<Rightarrow> create_result \<Rightarrow> place_result" where
  "hedge_submitted dir qty p CreateRaises = StatusError StrOfException"
| "hedge_submitted dir qty p CreateNoData =
     StatusError (Msg ''Failed to place hedge order'')"
| "hedge_submitted dir qty p (CreateData oid) =
     (case oid of
        None \<Rightarrow> StatusError (Msg ''No order ID in hedge response'')
      | Some i \<Rightarrow>
          (if i = [] then StatusError (Msg ''No order ID in hedge response'')
           else StatusOk \<lparr>order_id = i, side = SideText dir, size = qty, price = p,
                  status = None\<rparr>))"

definition place_hedge_order ::
  "'a TradingConfig_scheme \<Rightarrow> contract_config \<Rightarrow> string \<Rightarrow> real \<Rightarrow> bool \<Rightarrow>
   book_result \<Rightarrow> create_result \<Rightarrow> place_result \<times> action list" where
  "place_hedge_order cfg cc dir qty aggressive book created =
     (case book of
        BookRaises \<Rightarrow> (StatusError StrOfException, [GetOrderBookDepth])
      | BookNoData \<Rightarrow>
          (StatusError (Msg ''Failed to get order book for hedge''), [GetOrderBookDepth])
      | BookDataInvalid \<Rightarrow>
          (StatusError (Msg ''Invalid order book data for hedge''), [GetOrderBookDepth])
      | BookEntryNotADict \<Rightarrow> (StatusError StrOfException, [GetOrderBookDepth])
      | BookEntry bs as \<Rightarrow>
          (if bs = [] \<or> as = [] then
             (StatusError (Msg ''No bid/ask data for hedge''), [GetOrderBookDepth])
           else
             (case (hd bs, hd as) of
                (Some best_bid, Some best_ask) \<Rightarrow>
                  (case hedge_price (step_size cc) dir aggressive bs as best_bid best_ask of
                     None \<Rightarrow> (StatusError StrOfException, [GetOrderBookDepth])
                   | Some hp \<Rightarrow>
                       (let p = round_price_to_step hp (step_size cc) in
                        (hedge_submitted dir qty p created,
                         [GetOrderBookDepth,
                          CreateLimitOrder (contract_id cfg) qty p (hedge_side dir) True])))
              | _ \<Rightarrow> (StatusError StrOfException, [GetOrderBookDepth]))))"

text \<open>\<^verbatim>\<open>emergency_inventory_management\<close>: the inventory read, then the hedge.\<close>

definition emergency_inventory_management ::
  "'a TradingConfig_scheme \<Rightarrow> contract_config \<Rightarrow> positions_result \<Rightarrow> book_result \<Rightarrow>
   create_result \<Rightarrow> bool \<times> action list" where
  "emergency_inventory_management cfg cc positions book created =
     (let current_inventory = get_current_inventory cfg positions in
      if \<not> should_emergency_hedge (quantity cfg) current_inventory then
        (False, [GetAccountPositions])
      else
        (let hedge_direction = (if current_inventory > 0 then ''sell'' else ''buy'');
             batch_size = get_hedge_batch_size (quantity cfg) current_inventory;
             (hedge_result, calls) =
               place_hedge_order cfg cc hedge_direction batch_size True book created
         in (is_ok hedge_result, GetAccountPositions # calls)))"

subsection \<open>Volatility gate\<close>

text \<open>\<^verbatim>\<open>max\<close> and \<^verbatim>\<open>min\<close> of a Python list, used on lists of at least two prices.\<close>

fun list_max :: "real list \<Rightarrow> real" where
  "list_max [] = 0"
| "list_max (x # xs) = fold max xs x"

fun list_min :: "real list \<Rightarrow> real" where
  "list_min [] = 0"
| "list_min (x # xs) = fold min xs x"

text \<open>
  The value of \<^verbatim>\<open>price_change_percent\<close> in \<^verbatim>\<open>_check_volatility_fallback\<close>, when
  the function gets that far: \<open>None\<close> on the paths that log that no data could be had and on
  the exception path.
\<close>

fun price_change_percent :: "quote_result \<Rightarrow> real option" where
  "price_change_percent (QuoteData (Ticker f # ts)) = float_get f 0"
| "price_change_percent q = None"

definition check_volatility_fallback :: "quote_result \<Rightarrow> bool \<times> action list" where
  "check_volatility_fallback quote =
     (case price_change_percent quote of
        Some pcp \<Rightarrow> (if \<bar>pcp\<bar> > 0.03 then (False, [Get24HourQuote]) else (True, [Get24HourQuote]))
      | None \<Rightarrow> (True, [Get24HourQuote]))"

text \<open>
  The body of the \<^verbatim>\<open>try\<close> of \<^verbatim>\<open>check_btc_volatility_safe\<close> up to its verdict. It
  asks for the fallback when there are fewer than two recent prices, and it raises when the
  latest price is zero (the division).
\<close>

datatype realtime_check = NeedsFallback | CheckRaised | Verdict bool

definition recent_prices :: "real \<Rightarrow> price_record list \<Rightarrow> price_record list" where
  "recent_prices current_time history =
     (let one_minute_ago = current_time - 60 in
      filter (\<lambda>record. timestamp record > one_minute_ago) history)"

definition realtime_amplitude_check ::
  "real \<Rightarrow> price_record list \<Rightarrow> real \<Rightarrow> realtime_check" where
  "realtime_amplitude_check current_time history max_amplitude_usdt =
     (if history = [] then NeedsFallback
      else
        (let recent = recent_prices current_time history in
         if length recent < 2 then NeedsFallback
         else
           (let prices = map btc_price recent;
                high_price = list_max prices;
                low_price = list_min prices;
                latest_price = last prices;
                amplitude_1m = \<bar>high_price - low_price\<bar>
            in if latest_price = 0 then CheckRaised
               else
                 (let price_change_1m = \<bar>high_price - low_price\<bar> / latest_price * 100;
                      volatility_high =
                        (amplitude_1m > max_amplitude_usdt \<or> price_change_1m > 0.5)
                  in Verdict (\<not> volatility_high)))))"

definition check_btc_volatility_safe ::
  "real \<Rightarrow> price_record list \<Rightarrow> real \<Rightarrow> quote_result \<Rightarrow> bool \<times> action list" where
  "check_btc_volatility_safe current_time history max_amplitude_usdt quote =
     (case realtime_amplitude_check current_time history max_amplitude_usdt of
        Verdict is_safe \<Rightarrow> (is_safe, [])
      | NeedsFallback \<Rightarrow> check_volatility_fallback quote
      | CheckRaised \<Rightarrow> check_volatility_fallback quote)"

subsection \<open>Wait-time throttle\<close>

text \<open>
  The local variable \<^verbatim>\<open>cool_down_time\<close> after the chain of comparisons of the ratio
  \<^verbatim>\<open>len(self.active_close_orders) / self.config.max_orders\<close>; the chain is reached
  only with fewer active orders than \<^verbatim>\<open>max_orders\<close>, so the divisor is positive there.
\<close>

definition cool_down_time :: "'a TradingConfig_scheme \<Rightarrow> nat \<Rightarrow> real" where
  "cool_down_time cfg n =
     (if real n / real_of_int (max_orders cfg) \<ge> 2 / 3 then 2 * wait_time cfg
      else if real n / real_of_int (max_orders cfg) \<ge> 1 / 3 then wait_time cfg
      else if real n / real_of_int (max_orders cfg) \<ge> 1 / 6 then wait_time cfg / 2
      else wait_time cfg / 4)"

definition calculate_wait_time ::
  "'a TradingConfig_scheme \<Rightarrow> real \<Rightarrow> 'b bot_state_scheme \<Rightarrow> real \<times> 'b bot_state_scheme" where
  "calculate_wait_time cfg now st =
     (let n = length (active_close_orders st) in
      if int n < last_close_orders st then (0, st\<lparr>last_close_orders := int n\<rparr>)
      else
        (let st' = st\<lparr>last_close_orders := int n\<rparr> in
         if int n \<ge> max_orders cfg then (1, st')
         else if now - last_open_order_time st' > cool_down_time cfg n then (0, st')
         else (1, st')))"

subsection \<open>Monitoring an open order\<close>

text \<open>
  Side and price of the take-profit order, as \<^verbatim>\<open>_handle_order_result\<close> computes them in
  both of its branches from the side the exchange reports for the open order (in lower
  case) and its price.
\<close>

definition take_profit_order :: "'a TradingConfig_scheme \<Rightarrow> string \<Rightarrow> real \<Rightarrow> string \<times> real" where
  "take_profit_order cfg actual_open_side filled_price =
     (if actual_open_side = ''buy'' then
        (''sell'', filled_price * (1 + take_profit_percentage cfg))
      else if actual_open_side = ''sell'' then
        (''buy'', filled_price * (1 - take_profit_percentage cfg))
      else
        (let close_side = close_order_side cfg in
         if close_side = ''sell'' then
           (close_side, filled_price * (1 + take_profit_percentage cfg))
         else (close_side, filled_price * (1 - take_profit_percentage cfg))))"

definition reported_side :: "order_data \<Rightarrow> string" where
  "reported_side d = lower (case od_side d of None \<Rightarrow> [] | Some s \<Rightarrow> s)"

text \<open>
  \<^verbatim>\<open>_handle_order_result\<close> for the order \<open>oid\<close>, with the answers to the status read, to
  the cancel request, to the second status read and to the rounds of the close order. The
  result \<open>None\<close> is an exception that leaves the function (a field \<^verbatim>\<open>float\<close> rejects, or
  no order data after the cancel).
\<close>

definition handle_order_result ::
  "'a TradingConfig_scheme \<Rightarrow> contract_config \<Rightarrow> 'b bot_state_scheme \<Rightarrow> string \<Rightarrow>
   order_by_id_result \<Rightarrow> cancel_result \<Rightarrow> order_by_id_result \<Rightarrow> (nat \<Rightarrow> attempt) \<Rightarrow>
   bool option \<times> 'b bot_state_scheme \<times> action list" where
  "handle_order_result cfg cc st oid info1 cancel info2 responses =
     (let order_info = get_order_info info1;
          order_status = (case order_info of
                      None \<Rightarrow> ''UNKNOWN''
                    | Some d \<Rightarrow> (case od_status d of None \<Rightarrow> ''UNKNOWN'' | Some s \<Rightarrow> s))
      in
      if order_status = ''FILLED'' then
        (let st1 = st\<lparr>current_order_status := ''FILLED''\<rparr> in
         case order_info of
           None \<Rightarrow> (None, st1, [GetOrderById oid])
         | Some d \<Rightarrow>
             (case float_get (od_price d) 0 of
                None \<Rightarrow> (None, st1, [GetOrderById oid])
              | Some filled_price \<Rightarrow>
                  (if filled_price > 0 then
                     (let (close_side, close_price) =
                            take_profit_order cfg (reported_side d) filled_price;
                          (close_order, calls) =
                            place_close_order cc (contract_id cfg) (quantity cfg)
                              close_price close_side responses
                      in (Some True, st1, GetOrderById oid # calls))
                   else (Some True, st1, [GetOrderById oid]))))
      else if order_status = ''OPEN'' \<or> order_status = ''PARTIALLY_FILLED'' then
        (let st1 = (if cancel_order cancel then st\<lparr>current_order_status := ''CANCELED''\<rparr>
                    else st);
             reads = [GetOrderById oid, CancelOrder oid, GetOrderById oid]
         in
         case get_order_info info2 of
           None \<Rightarrow> (None, st1, reads)
         | Some d \<Rightarrow>
             (case (float_get (od_cumFillSize d) 0, float_get (od_price d) 0) of
                (Some filled_amount, Some filled_price) \<Rightarrow>
                  (if filled_amount > 0 then
                     (let (close_side, close_price) =
                            take_profit_order cfg (reported_side d) filled_price;
                          (close_order, calls) =
                            place_close_order cc (contract_id cfg) filled_amount
                              close_price close_side responses
                      in (Some True, st1, reads @ calls))
                   else (Some True, st1, reads))
              | _ \<Rightarrow> (None, st1, reads)))
      else (Some False, st, [GetOrderById oid]))"

text \<open>
  \<^verbatim>\<open>_place_and_monitor_open_order\<close> at the time \<open>now\<close>. The direction is the one
  passed, or the configured one when none is passed
  (\<^verbatim>\<open>direction or self.config.direction\<close>). \<open>fill_signalled\<close> tells whether
  the order-update handler sets the fill event while the function waits for it; the wait
  ends then, or after its timeout of 10 seconds. An exception inside makes the function
  return \<open>False\<close>.
\<close>

definition trade_direction_or_default :: "'a TradingConfig_scheme \<Rightarrow> string option \<Rightarrow> string" where
  "trade_direction_or_default cfg dir =
     (case dir of None \<Rightarrow> direction cfg | Some d \<Rightarrow> if d = [] then direction cfg else d)"

definition place_and_monitor_open_order ::
  "'a TradingConfig_scheme \<Rightarrow> contract_config \<Rightarrow> 'b bot_state_scheme \<Rightarrow> real \<Rightarrow>
   string option \<Rightarrow> (nat \<Rightarrow> attempt) \<Rightarrow> bool \<Rightarrow> order_by_id_result \<Rightarrow> cancel_result \<Rightarrow>
   order_by_id_result \<Rightarrow> (nat \<Rightarrow> attempt) \<Rightarrow> bool \<times> 'b bot_state_scheme \<times> action list" where
  "place_and_monitor_open_order cfg cc st now dir open_responses fill_signalled
       info1 cancel info2 close_responses =
     (let st0 = st\<lparr>order_filled_event := False\<rparr>;
          trade_direction = trade_direction_or_default cfg dir;
          (placed, calls) =
            place_open_order cc (contract_id cfg) (quantity cfg) trade_direction open_responses
      in
      case placed of
        StatusError e \<Rightarrow> (False, st0, calls)
      | StatusOk d \<Rightarrow>
          (let st1 = st0\<lparr>last_open_order_time := now\<rparr>;
               (st2, waited) =
                 (if status d \<noteq> Some ''FILLED'' then
                    (st1\<lparr>order_filled_event := fill_signalled\<rparr>, [WaitOrderFilledEvent 10])
                  else (st1, []));
               (res, st3, more_calls) =
                 handle_order_result cfg cc st2 (order_id d) info1 cancel info2 close_responses
           in (case res of None \<Rightarrow> False | Some b \<Rightarrow> b, st3, calls @ waited @ more_calls)))"

subsection \<open>Direction of the next open order\<close>

text \<open>
  \<^verbatim>\<open>_get_trade_direction_with_inventory_control\<close>; \<open>rnd\<close> is the value of
  \<^verbatim>\<open>random.random()\<close>, drawn only when there is a bias.
\<close>

definition get_trade_direction_with_inventory_control ::
  "'a TradingConfig_scheme \<Rightarrow> real \<Rightarrow> strategy \<Rightarrow> real \<Rightarrow> string option" where
  "get_trade_direction_with_inventory_control cfg current_inventory inventory_strategy rnd =
     (case inventory_strategy of
        normal \<Rightarrow> Some (direction cfg)
      | reduce_same_side \<Rightarrow>
          (case get_inventory_direction_bias (quantity cfg) current_inventory of
             Some inventory_bias \<Rightarrow>
               (if inventory_bias \<noteq> [] \<and> rnd < 0.5 then Some inventory_bias
                else Some (direction cfg))
           | None \<Rightarrow> Some (direction cfg))
      | opposite_only \<Rightarrow>
          (case get_inventory_direction_bias (quantity cfg) current_inventory of
             Some inventory_bias \<Rightarrow> (if inventory_bias \<noteq> [] then Some inventory_bias else None)
           | None \<Rightarrow> None)
      | pause \<Rightarrow> None)"

subsection \<open>Periodic status and reconciliation check\<close>

text \<open>
  One round of the loop over the active orders in \<^verbatim>\<open>_log_status_periodically\<close>: the
  accumulator holds \<^verbatim>\<open>active_buy_amount\<close>, \<^verbatim>\<open>active_sell_amount\<close> and
  \<^verbatim>\<open>self.active_close_orders\<close>. An order whose size \<^verbatim>\<open>float\<close> rejects raises inside
  the loop's own \<^verbatim>\<open>try\<close> and is skipped. (The price, which the source copies into the
  tracked entry as well, is left out.)
\<close>

fun tally_order ::
  "active_order \<Rightarrow> real \<times> real \<times> tracked_order list \<Rightarrow> real \<times> real \<times> tracked_order list" where
  "tally_order ActiveOrderNotADict acc = acc"
| "tally_order (ActiveOrder c i sd sz) (buy, sell, tracked) =
     (let order_side = upper (case sd of None \<Rightarrow> [] | Some x \<Rightarrow> x) in
      case float_get sz 0 of
        None \<Rightarrow> (buy, sell, tracked)
      | Some order_size \<Rightarrow>
          (if order_side = ''BUY'' then buy + order_size else buy,
           if order_side = ''BUY'' then sell
           else if order_side = ''SELL'' then sell + order_size else sell,
           tracked @ [\<lparr>t_id = i, t_size = sz, t_side = order_side\<rparr>]))"

text \<open>
  \<^verbatim>\<open>position_amt\<close> of the status line, read from the first entry of the contract in
  the position list; \<open>None\<close> is an exception, which the outer \<^verbatim>\<open>try\<close> of
  \<^verbatim>\<open>_log_status_periodically\<close> catches.
\<close>

fun find_position :: "string \<Rightarrow> position list \<Rightarrow> position option" where
  "find_position cid [] = None"
| "find_position cid (PositionNotADict # ps) = find_position cid ps"
| "find_position cid (Position c sz sd # ps) =
     (if c = Some cid then Some (Position c sz sd) else find_position cid ps)"

fun position_amt :: "string \<Rightarrow> positions_result \<Rightarrow> real option" where
  "position_amt cid (PositionsData positions) =
     (case find_position cid positions of
        None \<Rightarrow> Some 0
      | Some PositionNotADict \<Rightarrow> Some 0
      | Some (Position c sz sd) \<Rightarrow>
          (case float_get sz 0 of None \<Rightarrow> None | Some v \<Rightarrow> Some \<bar>v\<bar>))"
| "position_amt cid PositionsDataNotADict = None"
| "position_amt cid r = Some 0"

text \<open>
  \<^verbatim>\<open>_log_status_periodically\<close> at the time \<open>now\<close>, with the responses to its three
  queries: the active orders, the positions for the status line, and the positions for
  \<^verbatim>\<open>get_current_inventory\<close>.
\<close>

definition log_status_periodically ::
  "'a TradingConfig_scheme \<Rightarrow> real \<Rightarrow> 'b bot_state_scheme \<Rightarrow> active_orders_result \<Rightarrow>
   positions_result \<Rightarrow> positions_result \<Rightarrow> 'b bot_state_scheme \<times> action list" where
  "log_status_periodically cfg now st active positions1 positions2 =
     (if now - last_log_time st > 60 \<or> last_log_time st = 0 then
        (let active_orders = get_active_orders (contract_id cfg) active;
             (active_buy_amount, active_sell_amount, tracked) =
               fold tally_order active_orders (0, 0, []);
             st1 = st\<lparr>active_close_orders := tracked\<rparr>;
             active_net_exposure = active_buy_amount - active_sell_amount
         in case position_amt (contract_id cfg) (get_account_positions positions1) of
              None \<Rightarrow> (st1\<lparr>last_log_time := now\<rparr>, [GetActiveOrders, GetAccountPositions])
            | Some amt \<Rightarrow>
                (let current_inventory = get_current_inventory cfg positions2;
                     expected_active_exposure = - current_inventory;
                     exposure_mismatch = \<bar>active_net_exposure - expected_active_exposure\<bar>
                 in if exposure_mismatch > 2 * quantity cfg then
                      (st1\<lparr>shutdown_requested := True\<rparr>,
                       [GetActiveOrders, GetAccountPositions, GetAccountPositions])
                    else
                      (st1\<lparr>last_log_time := now\<rparr>,
                       [GetActiveOrders, GetAccountPositions, GetAccountPositions])))
      else (st, []))"

subsection \<open>Vocabulary of the properties\<close>

text \<open>
  The five risk tiers of the specification. The source has no single function that returns
  a tier: the main loop first asks \<^const>\<open>should_emergency_hedge\<close> (inside
  \<^verbatim>\<open>emergency_inventory_management\<close>) and afterwards \<^const>\<open>get_trading_strategy\<close>.
  \<open>risk_tier\<close> is that composition.
\<close>

datatype RiskTier = NORMAL | REDUCE_SAME_SIDE | OPPOSITE_ONLY | PAUSE | EMERGENCY

fun tier_of_strategy :: "strategy \<Rightarrow> RiskTier" where
  "tier_of_strategy normal = NORMAL"
| "tier_of_strategy reduce_same_side = REDUCE_SAME_SIDE"
| "tier_of_strategy opposite_only = OPPOSITE_ONLY"
| "tier_of_strategy pause = PAUSE"

definition risk_tier :: "real \<Rightarrow> real \<Rightarrow> RiskTier" where
  "risk_tier base_quantity current_inventory =
     (if should_emergency_hedge base_quantity current_inventory then EMERGENCY
      else tier_of_strategy (get_trading_strategy base_quantity current_inventory))"

text \<open>
  The classification as the specification words it: strict \<open><\<close> at each of the four
  thresholds, so that a value exactly at a threshold is in the more severe tier.
\<close>

definition classify_spec :: "real \<Rightarrow> real \<Rightarrow> RiskTier" where
  "classify_spec q p =
     (if \<bar>p\<bar> < 2 * q then NORMAL
      else if \<bar>p\<bar> < 4 * q then REDUCE_SAME_SIDE
      else if \<bar>p\<bar> < 6 * q then OPPOSITE_ONLY
      else if \<bar>p\<bar> < 8 * q then PAUSE
      else EMERGENCY)"

text \<open>The orders among the calls of a trace.\<close>

fun is_order :: "action \<Rightarrow> bool" where
  "is_order (CreateLimitOrder c q p s po) = True"
| "is_order a = False"

definition orders_submitted :: "action list \<Rightarrow> action list" where
  "orders_submitted calls = filter is_order calls"

text \<open>
  The entries of a position list that \<^const>\<open>find_open_size\<close> accepts for a contract, and
  the position reads that deliver no position of the contract: the query raises or returns
  nothing usable, the list has no entry of the contract, or the open size of its first
  entry cannot be read.
\<close>

fun is_position_of :: "string \<Rightarrow> position \<Rightarrow> bool" where
  "is_position_of cid PositionNotADict = False"
| "is_position_of cid (Position c sz sd) = (c = Some cid)"

fun position_read_fails :: "string \<Rightarrow> positions_result \<Rightarrow> bool" where
  "position_read_fails cid (PositionsData ps) =
     (case filter (is_position_of cid) ps of
        [] \<Rightarrow> True
      | e # es \<Rightarrow> p_openSize e = Malformed)"
| "position_read_fails cid r = True"

text \<open>The four cooldown bands as the specification lists them.\<close>

definition cooldown_bands_spec :: "real \<Rightarrow> real list" where
  "cooldown_bands_spec base_wait = [base_wait / 4, base_wait, 2 * base_wait, 0]"

text \<open>
  The ways the 24-hour quote can fail to deliver a percentage: the request raises, returns
  nothing, has no data, is not a success, or its data has an unexpected shape.
\<close>

fun quote_fails :: "quote_result \<Rightarrow> bool" where
  "quote_fails (QuoteData (Ticker (Num r) # ts)) = False"
| "quote_fails (QuoteData (Ticker Missing # ts)) = False"
| "quote_fails q = True"

text \<open>
  The volatility check as the specification words it, given the 24-hour change \<open>c\<close>: only
  the samples of the last 60 seconds count; with fewer than two of them the 24-hour rule
  decides, otherwise the amplitude and its share of the latest price decide.
\<close>

definition is_volatility_safe_spec ::
  "real \<Rightarrow> price_record list \<Rightarrow> real \<Rightarrow> real \<Rightarrow> bool" where
  "is_volatility_safe_spec now history max_amplitude c =
     (let samples = filter (\<lambda>s. timestamp s > now - 60) history;
          amplitude = list_max (map btc_price samples) - list_min (map btc_price samples)
      in if length samples < 2 then \<not> \<bar>c\<bar> > 0.03
         else \<not> (amplitude > max_amplitude
                \<or> amplitude / btc_price (last samples) > 0.005))"

text \<open>
  The net exposure of a list of tracked orders: the sum of the sizes of the buy orders minus
  the sum of the sizes of the sell orders.
\<close>

definition tracked_size :: "tracked_order \<Rightarrow> real" where
  "tracked_size t = (case float_get (t_size t) 0 of Some v \<Rightarrow> v | None \<Rightarrow> 0)"

definition net_exposure :: "tracked_order list \<Rightarrow> real" where
  "net_exposure ts =
     sum_list (map tracked_size (filter (\<lambda>t. t_side t = ''BUY'') ts))
     - sum_list (map tracked_size (filter (\<lambda>t. t_side t = ''SELL'') ts))"

text \<open>
  Vocabulary for the rounds of a placement loop. A round is complete when the book gives a
  positive best bid and best ask and the submission returns an order id; the exchange then
  reports a status for the order. The order is maker-rejected when that status is CANCELED
  and accepted when it is OPEN, PARTIALLY_FILLED or FILLED.
\<close>

fun book_ok :: "book_result \<Rightarrow> bool" where
  "book_ok (BookEntry (Some best_bid # bs) (Some best_ask # as)) = (best_bid > 0 \<and> best_ask > 0)"
| "book_ok b = False"

fun best_bid_of :: "book_result \<Rightarrow> real" where
  "best_bid_of (BookEntry (Some best_bid # bs) as) = best_bid"
| "best_bid_of b = 0"

fun best_ask_of :: "book_result \<Rightarrow> real" where
  "best_ask_of (BookEntry bs (Some best_ask # as)) = best_ask"
| "best_ask_of b = 0"

fun order_id_of :: "create_result \<Rightarrow> string" where
  "order_id_of (CreateData (Some i)) = i"
| "order_id_of c = []"

definition reported_status :: "attempt \<Rightarrow> string option" where
  "reported_status a = (case get_order_info (at_info a) of None \<Rightarrow> None | Some d \<Rightarrow> od_status d)"

definition complete_round :: "attempt \<Rightarrow> bool" where
  "complete_round a \<longleftrightarrow> book_ok (at_book a) \<and> order_id_of (at_created a) \<noteq> []"

definition maker_rejected :: "attempt \<Rightarrow> bool" where
  "maker_rejected a \<longleftrightarrow> complete_round a \<and> reported_status a = Some ''CANCELED''"

definition accepted :: "attempt \<Rightarrow> bool" where
  "accepted a \<longleftrightarrow> complete_round a \<and>
     (reported_status a = Some ''OPEN'' \<or> reported_status a = Some ''PARTIALLY_FILLED''
      \<or> reported_status a = Some ''FILLED'')"

text \<open>The calls of a complete round of \<^const>\<open>place_open_order\<close>.\<close>

definition open_round_calls ::
  "contract_config \<Rightarrow> string \<Rightarrow> real \<Rightarrow> string \<Rightarrow> attempt \<Rightarrow> action list" where
  "open_round_calls cc cid qty dir a =
     [GetOrderBookDepth,
      CreateLimitOrder cid qty
        (open_order_price cc dir (best_bid_of (at_book a)) (best_ask_of (at_book a)))
        (open_order_side dir) True,
      GetOrderById (order_id_of (at_created a))]"

text \<open>
  The fill signal as the specification words it: it is set by an event that reports the
  status FILLED of the tracked order id on the contract, and left alone by any other event.
\<close>

definition fill_signal_spec :: "string \<Rightarrow> string \<Rightarrow> ws_message \<Rightarrow> bool \<Rightarrow> bool" where
  "fill_signal_spec cid tracked_id message signal =
     (case message of
        Message event (order # others) \<Rightarrow>
          (if event = ''ORDER_UPDATE'' \<and> w_contractId order = Some cid
              \<and> w_id order = Some tracked_id \<and> w_status order = Some ''FILLED''
           then True else signal)
      | _ \<Rightarrow> signal)"

text \<open>
  The close price as the specification words it: the filled price times one plus the
  take-profit fraction after a buy, times one minus it after a sell.
\<close>

definition close_price_spec :: "real \<Rightarrow> string \<Rightarrow> real \<Rightarrow> real" where
  "close_price_spec take_profit filled_side p =
     (if filled_side = ''buy'' then p * (1 + take_profit) else p * (1 - take_profit))"

text \<open>
  The take-profit order for a fill of size \<open>qty\<close> at price \<open>p\<close> on the side \<open>s\<close>, given
  best bid and best ask when it is placed: on the opposite side, post-only, at \<open>p\<close> raised
  (after a buy) or lowered (after a sell) by the take-profit fraction, moved to one price
  delta beyond the best bid or ask if it would cross the book, and rounded to the price
  step.
\<close>

definition take_profit_submission ::
  "string \<Rightarrow> real \<Rightarrow> contract_config \<Rightarrow> string \<Rightarrow> real \<Rightarrow> real \<Rightarrow> real \<Rightarrow> real \<Rightarrow> action" where
  "take_profit_submission cid take_profit cc s p qty best_bid best_ask =
     (if s = ''buy'' then
        CreateLimitOrder cid qty
          (round_price_to_step
             (if p * (1 + take_profit) \<le> best_bid then best_bid + price_delta cc
              else p * (1 + take_profit))
             (step_size cc))
          SELL True
      else
        CreateLimitOrder cid qty
          (round_price_to_step
             (if p * (1 - take_profit) \<ge> best_ask then best_ask - price_delta cc
              else p * (1 - take_profit))
             (step_size cc))
          BUY True)"

text \<open>
  The tracked entry that the status check builds from an active order of the exchange's
  reply: none for an entry that is not a dictionary or whose size cannot be read.
\<close>

fun track :: "active_order \<Rightarrow> tracked_order list" where
  "track ActiveOrderNotADict = []"
| "track (ActiveOrder c i sd sz) =
     (case float_get sz 0 of
        None \<Rightarrow> []
      | Some v \<Rightarrow> [\<lparr>t_id = i, t_size = sz,
                    t_side = upper (case sd of None \<Rightarrow> [] | Some x \<Rightarrow> x)\<rparr>])"

section \<open>Properties\<close>

subsection \<open>Risk tiers\<close>

lemma get_trading_strategy_cases:
  "get_trading_strategy q p =
     (if \<bar>p\<bar> < 2 * q then normal else if \<bar>p\<bar> < 4 * q then reduce_same_side
      else if \<bar>p\<bar> < 6 * q then opposite_only else pause)"
  by (simp add: get_trading_strategy_def)

lemma should_emergency_hedge_iff: "should_emergency_hedge q p \<longleftrightarrow> \<bar>p\<bar> > 8 * q"
  by (simp add: should_emergency_hedge_def)

text \<open>
  C1, as stated, fails at the last threshold: a position of exactly eight base quantities
  is not an emergency for the code (\<^const>\<open>should_emergency_hedge\<close> compares with \<open>>\<close>),
  it is in the PAUSE tier.
\<close>

theorem C1_counterexample:
  "risk_tier 1 8 = PAUSE \<and> classify_spec 1 8 = EMERGENCY \<and> \<not> should_emergency_hedge 1 8"
  by (simp add: risk_tier_def classify_spec_def should_emergency_hedge_def
      get_trading_strategy_def)

text \<open>
  C1 (amended): for a base quantity \<open>q > 0\<close> the tier depends on \<open>\<bar>p\<bar>\<close> only;
  \<open>\<bar>p\<bar> < 2q\<close> is NORMAL, \<open>2q \<le> \<bar>p\<bar> < 4q\<close> is REDUCE_SAME_SIDE, \<open>4q \<le> \<bar>p\<bar> < 6q\<close> is
  OPPOSITE_ONLY, \<open>6q \<le> \<bar>p\<bar> \<le> 8q\<close> is PAUSE and \<open>\<bar>p\<bar> > 8q\<close> is EMERGENCY. At the
  thresholds 2q, 4q and 6q the value is in the more severe tier; at exactly 8q it is PAUSE.
\<close>

theorem C1_risk_tier_thresholds:
  assumes "q > 0"
  shows "risk_tier q p =
     (if \<bar>p\<bar> < 2 * q then NORMAL
      else if \<bar>p\<bar> < 4 * q then REDUCE_SAME_SIDE
      else if \<bar>p\<bar> < 6 * q then OPPOSITE_ONLY
      else if \<bar>p\<bar> \<le> 8 * q then PAUSE
      else EMERGENCY)
    \<and> risk_tier q p = risk_tier q \<bar>p\<bar>
    \<and> risk_tier q (2 * q) = REDUCE_SAME_SIDE
    \<and> risk_tier q (4 * q) = OPPOSITE_ONLY
    \<and> risk_tier q (6 * q) = PAUSE
    \<and> risk_tier q (8 * q) = PAUSE"
  using assms
  by (simp add: risk_tier_def should_emergency_hedge_iff get_trading_strategy_cases)

theorem C1_risk_tier_thresholds_witness:
  "(0::real) < 1 \<and> risk_tier 1 (-9) = EMERGENCY
   \<and> risk_tier 1 (-9) = risk_tier 1 \<bar>-9\<bar> \<and> risk_tier 1 (2 * 1) = REDUCE_SAME_SIDE
   \<and> risk_tier 1 (4 * 1) = OPPOSITE_ONLY \<and> risk_tier 1 (6 * 1) = PAUSE
   \<and> risk_tier 1 (8 * 1) = PAUSE"
proof -
  have q: "(1::real) > 0" by simp
  show ?thesis
    using C1_risk_tier_thresholds [OF q, of "-9"] by auto
qed

subsection \<open>Emergency hedge\<close>

lemma place_hedge_order_calls:
  "snd (place_hedge_order cfg cc d qty ag book created) = [GetOrderBookDepth]
   \<or> (\<exists>px. snd (place_hedge_order cfg cc d qty ag book created) =
         [GetOrderBookDepth, CreateLimitOrder (contract_id cfg) qty px (hedge_side d) True])"
  by (auto simp: place_hedge_order_def Let_def split: book_result.splits option.splits)

lemma emergency_strategy_is_pause:
  "\<bar>p\<bar> > 8 * q \<Longrightarrow> get_trading_strategy q p = pause"
  by (cases "q \<ge> 0") (auto simp: get_trading_strategy_cases)

text \<open>
  C8: with a net position \<open>p\<close> of more than eight base quantities
  \<^const>\<open>should_emergency_hedge\<close> holds and the emergency path calls the hedge placement
  with \<open>aggressive = True\<close>, the size \<open>min (3q) \<bar>p\<bar>\<close> and the direction sell for \<open>p > 0\<close>,
  buy otherwise. At most one order is submitted, and it is that one; with three readable
  levels on each side of the book it is submitted, post-only, at the third level of the side
  it rests on. The strategy of the same position is pause, so that no normal open follows.
  With \<open>\<bar>p\<bar>\<close> not above the threshold only the position is read.
\<close>

theorem C8_emergency_hedge:
  assumes "get_current_inventory cfg positions = p"
  shows "should_emergency_hedge (quantity cfg) p = (\<bar>p\<bar> > 8 * quantity cfg)
    \<and> emergency_inventory_management cfg cc positions book created =
        (if \<bar>p\<bar> > 8 * quantity cfg then
           (is_ok (fst (place_hedge_order cfg cc (if p > 0 then ''sell'' else ''buy'')
                          (min (3 * quantity cfg) \<bar>p\<bar>) True book created)),
            GetAccountPositions #
              snd (place_hedge_order cfg cc (if p > 0 then ''sell'' else ''buy'')
                     (min (3 * quantity cfg) \<bar>p\<bar>) True book created))
         else (False, [GetAccountPositions]))
    \<and> (orders_submitted (snd (emergency_inventory_management cfg cc positions book created)) = []
        \<or> (\<exists>px. orders_submitted
                    (snd (emergency_inventory_management cfg cc positions book created)) =
                  [CreateLimitOrder (contract_id cfg) (min (3 * quantity cfg) \<bar>p\<bar>) px
                     (if p > 0 then SELL else BUY) True]
                \<and> \<bar>p\<bar> > 8 * quantity cfg))
    \<and> (\<bar>p\<bar> > 8 * quantity cfg
        \<and> book = BookEntry (Some b1 # Some b2 # Some b3 # bs')
                   (Some a1 # Some a2 # Some a3 # as') \<longrightarrow>
        snd (emergency_inventory_management cfg cc positions book created) =
          [GetAccountPositions, GetOrderBookDepth,
           CreateLimitOrder (contract_id cfg) (min (3 * quantity cfg) \<bar>p\<bar>)
             (round_price_to_step (if p > 0 then b3 else a3) (step_size cc))
             (if p > 0 then SELL else BUY) True])
    \<and> (\<bar>p\<bar> > 8 * quantity cfg \<longrightarrow>
          get_trading_strategy (quantity cfg) p = pause
          \<and> get_trade_direction_with_inventory_control cfg p
               (get_trading_strategy (quantity cfg) p) rnd = None)"
proof -
  let ?q = "quantity cfg"
  let ?d = "if p > 0 then ''sell'' else ''buy''"
  let ?H = "place_hedge_order cfg cc ?d (min (3 * ?q) \<bar>p\<bar>) True book created"
  have hs: "hedge_side ?d = (if p > 0 then SELL else BUY)"
    by (simp add: hedge_side_def)
  have 1: "should_emergency_hedge ?q p = (\<bar>p\<bar> > 8 * ?q)"
    by (simp add: should_emergency_hedge_iff)
  have 2: "emergency_inventory_management cfg cc positions book created =
        (if \<bar>p\<bar> > 8 * ?q then (is_ok (fst ?H), GetAccountPositions # snd ?H)
         else (False, [GetAccountPositions]))"
    using assms
    by (simp add: emergency_inventory_management_def should_emergency_hedge_iff
        get_hedge_batch_size_def Let_def split_def mult.commute)
  have 3: "orders_submitted (snd (emergency_inventory_management cfg cc positions book created)) = []
        \<or> (\<exists>px. orders_submitted
                    (snd (emergency_inventory_management cfg cc positions book created)) =
                  [CreateLimitOrder (contract_id cfg) (min (3 * ?q) \<bar>p\<bar>) px
                     (if p > 0 then SELL else BUY) True]
                \<and> \<bar>p\<bar> > 8 * ?q)"
  proof (cases "\<bar>p\<bar> > 8 * ?q")
    case False
    then show ?thesis by (simp add: 2 orders_submitted_def)
  next
    case True
    from place_hedge_order_calls [of cfg cc ?d "min (3 * ?q) \<bar>p\<bar>" True book created]
    show ?thesis
    proof
      assume "snd ?H = [GetOrderBookDepth]"
      with True show ?thesis by (simp add: 2 orders_submitted_def)
    next
      assume "\<exists>px. snd ?H = [GetOrderBookDepth,
          CreateLimitOrder (contract_id cfg) (min (3 * ?q) \<bar>p\<bar>) px (hedge_side ?d) True]"
      then obtain px where "snd ?H = [GetOrderBookDepth,
          CreateLimitOrder (contract_id cfg) (min (3 * ?q) \<bar>p\<bar>) px (hedge_side ?d) True]"
        by blast
      with True hs show ?thesis by (simp add: 2 orders_submitted_def)
    qed
  qed
  have 4: "\<bar>p\<bar> > 8 * ?q
        \<and> book = BookEntry (Some b1 # Some b2 # Some b3 # bs')
                   (Some a1 # Some a2 # Some a3 # as') \<longrightarrow>
        snd (emergency_inventory_management cfg cc positions book created) =
          [GetAccountPositions, GetOrderBookDepth,
           CreateLimitOrder (contract_id cfg) (min (3 * ?q) \<bar>p\<bar>)
             (round_price_to_step (if p > 0 then b3 else a3) (step_size cc))
             (if p > 0 then SELL else BUY) True]"
    using assms
    by (auto simp: emergency_inventory_management_def should_emergency_hedge_iff
        get_hedge_batch_size_def place_hedge_order_def hedge_price_def hedge_side_def
        Let_def mult.commute)
  have 5: "\<bar>p\<bar> > 8 * ?q \<longrightarrow> get_trading_strategy ?q p = pause
          \<and> get_trade_direction_with_inventory_control cfg p (get_trading_strategy ?q p) rnd = None"
    by (simp add: emergency_strategy_is_pause get_trade_direction_with_inventory_control_def)
  from 1 2 3 4 5 show ?thesis by blast
qed

theorem C8_emergency_hedge_witness:
  "get_current_inventory
     \<lparr>contract_id = ''10000001'', quantity = 1, take_profit_percentage = 0.003,
      direction = ''buy'', max_orders = 6, wait_time = 10\<rparr>
     (PositionsData [Position (Some ''10000001'') (Num 9) (Some ''LONG'')]) = 9
   \<and> should_emergency_hedge 1 9
   \<and> emergency_inventory_management
       \<lparr>contract_id = ''10000001'', quantity = 1, take_profit_percentage = 0.003,
        direction = ''buy'', max_orders = 6, wait_time = 10\<rparr>
       \<lparr>price_delta = 0.1, step_size = 0.1\<rparr>
       (PositionsData [Position (Some ''10000001'') (Num 9) (Some ''LONG'')])
       (BookEntry [Some 100, Some 99.9, Some 99.8] [Some 100.1]) (CreateData (Some ''h1''))
     = (True, [GetAccountPositions, GetOrderBookDepth,
               CreateLimitOrder ''10000001'' 3 99.8 SELL True])"
proof -
  let ?cfg = "\<lparr>contract_id = ''10000001'', quantity = 1, take_profit_percentage = 0.003,
      direction = ''buy'', max_orders = 6, wait_time = 10\<rparr>"
  let ?pos = "PositionsData [Position (Some ''10000001'') (Num 9) (Some ''LONG'')]"
  have h: "get_current_inventory ?cfg ?pos = 9"
    by (simp add: get_current_inventory_def)
  note T = C8_emergency_hedge [OF h, of "\<lparr>price_delta = 0.1, step_size = 0.1\<rparr>"
        "BookEntry [Some 100, Some 99.9, Some 99.8] [Some 100.1]" "CreateData (Some ''h1'')"]
  have a: "should_emergency_hedge 1 9"
    using T [THEN conjunct1] by simp
  have b: "emergency_inventory_management ?cfg \<lparr>price_delta = 0.1, step_size = 0.1\<rparr> ?pos
       (BookEntry [Some 100, Some 99.9, Some 99.8] [Some 100.1]) (CreateData (Some ''h1''))
     = (True, [GetAccountPositions, GetOrderBookDepth,
               CreateLimitOrder ''10000001'' 3 99.8 SELL True])"
    unfolding T [THEN conjunct2, THEN conjunct1]
    by (simp add: place_hedge_order_def hedge_price_def hedge_side_def Let_def
        round_price_to_step_def py_round_def py_round_digits_def)
  from h a b show ?thesis by blast
qed

subsection \<open>Failed position reads\<close>

lemma find_open_size_no_entry:
  "filter (is_position_of cid) ps = [] \<Longrightarrow> find_open_size cid ps = Some 0"
  by (induction cid ps rule: find_open_size.induct) (auto split: if_splits)

lemma find_open_size_malformed:
  "filter (is_position_of cid) ps = e # es \<Longrightarrow> p_openSize e = Malformed \<Longrightarrow>
   find_open_size cid ps = None"
  by (induction cid ps rule: find_open_size.induct) (auto split: if_splits)

lemma failed_read_is_zero:
  assumes "position_read_fails (contract_id cfg) res"
  shows "get_current_inventory cfg res = 0"
proof (cases res)
  case (PositionsData ps)
  show ?thesis
  proof (cases "filter (is_position_of (contract_id cfg)) ps")
    case Nil
    then show ?thesis
      using PositionsData by (simp add: get_current_inventory_def find_open_size_no_entry)
  next
    case (Cons e es)
    with assms PositionsData have "p_openSize e = Malformed" by simp
    with Cons show ?thesis
      using PositionsData by (simp add: get_current_inventory_def find_open_size_malformed)
  qed
qed (simp_all add: get_current_inventory_def)

text \<open>
  C9: a position read that raises, returns nothing usable, has no entry of the contract or
  an unreadable open size gives the inventory 0, the same as a flat position of the
  contract; with a positive base quantity the cycle is then in the normal strategy (the
  NORMAL tier) and the direction chosen is the configured one.
\<close>

theorem C9_failed_position_read_is_flat:
  assumes "position_read_fails (contract_id cfg) res" and "quantity cfg > 0"
  shows "get_current_inventory cfg res = 0
    \<and> get_current_inventory cfg res =
        get_current_inventory cfg (PositionsData [Position (Some (contract_id cfg)) (Num 0) sd])
    \<and> get_trading_strategy (quantity cfg) (get_current_inventory cfg res) = normal
    \<and> get_trade_direction_with_inventory_control cfg (get_current_inventory cfg res)
         (get_trading_strategy (quantity cfg) (get_current_inventory cfg res)) rnd =
        Some (direction cfg)
    \<and> risk_tier (quantity cfg) (get_current_inventory cfg res) = NORMAL"
proof -
  have z: "get_current_inventory cfg res = 0"
    using assms(1) by (rule failed_read_is_zero)
  have flat: "get_current_inventory cfg
      (PositionsData [Position (Some (contract_id cfg)) (Num 0) sd]) = 0"
    by (simp add: get_current_inventory_def)
  have n: "get_trading_strategy (quantity cfg) 0 = normal"
    using assms(2) by (simp add: get_trading_strategy_cases)
  have t: "risk_tier (quantity cfg) 0 = NORMAL"
    using assms(2) by (simp add: risk_tier_def should_emergency_hedge_iff n)
  show ?thesis
    by (simp add: z flat n t get_trade_direction_with_inventory_control_def)
qed

theorem C9_failed_position_read_is_flat_witness:
  "position_read_fails ''10000001'' PositionsRaises
   \<and> get_current_inventory
       \<lparr>contract_id = ''10000001'', quantity = 0.01, take_profit_percentage = 0.003,
        direction = ''buy'', max_orders = 6, wait_time = 10\<rparr> PositionsRaises = 0
   \<and> get_trading_strategy 0.01 0 = normal
   \<and> get_trade_direction_with_inventory_control
       \<lparr>contract_id = ''10000001'', quantity = 0.01, take_profit_percentage = 0.003,
        direction = ''buy'', max_orders = 6, wait_time = 10\<rparr> 0 normal 0.9 = Some ''buy''"
proof -
  let ?cfg = "\<lparr>contract_id = ''10000001'', quantity = 0.01, take_profit_percentage = 0.003,
        direction = ''buy'', max_orders = 6, wait_time = 10\<rparr>"
  have f: "position_read_fails (contract_id ?cfg) PositionsRaises" by simp
  have q: "quantity ?cfg > 0" by simp
  note T = C9_failed_position_read_is_flat [OF f q, of None "0.9"]
  have z: "get_current_inventory ?cfg PositionsRaises = 0"
    using T [THEN conjunct1] .
  have n: "get_trading_strategy 0.01 0 = normal"
    using T [THEN conjunct2, THEN conjunct2, THEN conjunct1] unfolding z by simp
  have d: "get_trade_direction_with_inventory_control ?cfg 0 normal 0.9 = Some ''buy''"
    using T [THEN conjunct2, THEN conjunct2, THEN conjunct2, THEN conjunct1] n
    unfolding z by simp
  from f z n d show ?thesis by simp
qed

subsection \<open>Wait-time throttle\<close>

lemma band_mono:
  fixes r1 r2 w :: real
  assumes "r1 \<le> r2" and "0 \<le> w"
  shows "(if r1 \<ge> 2 / 3 then 2 * w else if r1 \<ge> 1 / 3 then w
          else if r1 \<ge> 1 / 6 then w / 2 else w / 4)
       \<le> (if r2 \<ge> 2 / 3 then 2 * w else if r2 \<ge> 1 / 3 then w
          else if r2 \<ge> 1 / 6 then w / 2 else w / 4)"
  using assms by (simp split: if_splits)

lemma cool_down_time_mono:
  assumes "m \<le> n" and "0 < max_orders cfg" and "0 \<le> wait_time cfg"
  shows "cool_down_time cfg m \<le> cool_down_time cfg n"
proof -
  have "real m / real_of_int (max_orders cfg) \<le> real n / real_of_int (max_orders cfg)"
    using assms(1,2) by (simp add: divide_right_mono)
  then show ?thesis
    unfolding cool_down_time_def using assms(3) by (rule band_mono)
qed

lemma cool_down_time_thresholds:
  assumes "0 < max_orders cfg"
  shows "cool_down_time cfg n =
     (if 2 * max_orders cfg \<le> 3 * int n then 2 * wait_time cfg
      else if max_orders cfg \<le> 3 * int n then wait_time cfg
      else if max_orders cfg \<le> 6 * int n then wait_time cfg / 2
      else wait_time cfg / 4)"
proof -
  let ?M = "real_of_int (max_orders cfg)"
  have M: "0 < ?M" using assms by simp
  have a: "(2 / 3 \<le> real n / ?M) = (2 * max_orders cfg \<le> 3 * int n)"
  proof -
    have "(2 / 3 \<le> real n / ?M) = (2 * ?M \<le> 3 * real n)"
      using M by (simp add: field_simps)
    also have "\<dots> = (real_of_int (2 * max_orders cfg) \<le> real_of_int (3 * int n))"
      by simp
    also have "\<dots> = (2 * max_orders cfg \<le> 3 * int n)"
      by (rule of_int_le_iff)
    finally show ?thesis .
  qed
  have b: "(1 / 3 \<le> real n / ?M) = (max_orders cfg \<le> 3 * int n)"
  proof -
    have "(1 / 3 \<le> real n / ?M) = (?M \<le> 3 * real n)"
      using M by (simp add: field_simps)
    also have "\<dots> = (real_of_int (max_orders cfg) \<le> real_of_int (3 * int n))"
      by simp
    also have "\<dots> = (max_orders cfg \<le> 3 * int n)"
      by (rule of_int_le_iff)
    finally show ?thesis .
  qed
  have c: "(1 / 6 \<le> real n / ?M) = (max_orders cfg \<le> 6 * int n)"
  proof -
    have "(1 / 6 \<le> real n / ?M) = (?M \<le> 6 * real n)"
      using M by (simp add: field_simps)
    also have "\<dots> = (real_of_int (max_orders cfg) \<le> real_of_int (6 * int n))"
      by simp
    also have "\<dots> = (max_orders cfg \<le> 6 * int n)"
      by (rule of_int_le_iff)
    finally show ?thesis .
  qed
  show ?thesis
    unfolding cool_down_time_def a b c ..
qed

text \<open>
  C7, as stated, fails: between a sixth and a third of the maximum the cooldown is half the
  base wait, which is none of the four bands the claim lists.
\<close>

theorem C7_counterexample:
  "cool_down_time \<lparr>contract_id = ''10000001'', quantity = 0.01, take_profit_percentage = 0.003,
      direction = ''buy'', max_orders = 6, wait_time = 10\<rparr> 1 = 5
   \<and> 5 \<notin> set (cooldown_bands_spec 10)"
  by (simp add: cool_down_time_def cooldown_bands_spec_def)

text \<open>
  C7 (amended): with fewer active close orders than the maximum, the cooldown is derived
  from the ratio of the two, in four bands: a quarter of the base wait below 1/6, half of
  it from 1/6, the base wait from 1/3 and twice the base wait from 2/3; it does not decrease
  when the number of active orders grows (for a base wait that is not negative). The
  throttle lets the next open through at once when the number of active orders has dropped
  since the last call, makes it wait when the maximum is reached, and otherwise lets it
  through when more than the cooldown has passed since the last open.
\<close>

theorem C7_cooldown_bands:
  assumes "int n < max_orders cfg" and "0 \<le> wait_time cfg" and "m \<le> n"
  shows "cool_down_time cfg n =
     (if 2 * max_orders cfg \<le> 3 * int n then 2 * wait_time cfg
      else if max_orders cfg \<le> 3 * int n then wait_time cfg
      else if max_orders cfg \<le> 6 * int n then wait_time cfg / 2
      else wait_time cfg / 4)
    \<and> cool_down_time cfg n \<in>
        {wait_time cfg / 4, wait_time cfg / 2, wait_time cfg, 2 * wait_time cfg}
    \<and> cool_down_time cfg m \<le> cool_down_time cfg n
    \<and> (length (active_close_orders st) = n \<longrightarrow>
        fst (calculate_wait_time cfg now st) =
          (if int n < last_close_orders st then 0
           else if now - last_open_order_time st > cool_down_time cfg n then 0 else 1))"
proof -
  have M: "0 < max_orders cfg" using assms(1) by linarith
  have 1: "cool_down_time cfg n =
     (if 2 * max_orders cfg \<le> 3 * int n then 2 * wait_time cfg
      else if max_orders cfg \<le> 3 * int n then wait_time cfg
      else if max_orders cfg \<le> 6 * int n then wait_time cfg / 2
      else wait_time cfg / 4)"
    using M by (rule cool_down_time_thresholds)
  have 2: "cool_down_time cfg n \<in>
        {wait_time cfg / 4, wait_time cfg / 2, wait_time cfg, 2 * wait_time cfg}"
    by (simp add: cool_down_time_def)
  have 3: "cool_down_time cfg m \<le> cool_down_time cfg n"
    using assms(3) M assms(2) by (rule cool_down_time_mono)
  have 4: "length (active_close_orders st) = n \<longrightarrow>
        fst (calculate_wait_time cfg now st) =
          (if int n < last_close_orders st then 0
           else if now - last_open_order_time st > cool_down_time cfg n then 0 else 1)"
    using assms(1) by (simp add: calculate_wait_time_def Let_def)
  from 1 2 3 4 show ?thesis by blast
qed

theorem C7_cooldown_bands_witness:
  "cool_down_time \<lparr>contract_id = ''10000001'', quantity = 0.01, take_profit_percentage = 0.003,
      direction = ''buy'', max_orders = 6, wait_time = 10\<rparr> 4 = 20
   \<and> cool_down_time \<lparr>contract_id = ''10000001'', quantity = 0.01, take_profit_percentage = 0.003,
      direction = ''buy'', max_orders = 6, wait_time = 10\<rparr> 1 \<le> 20"
proof -
  let ?cfg = "\<lparr>contract_id = ''10000001'', quantity = 0.01, take_profit_percentage = 0.003,
      direction = ''buy'', max_orders = 6, wait_time = 10\<rparr>"
  have a: "int 4 < max_orders ?cfg" by simp
  have b: "0 \<le> wait_time ?cfg" by simp
  have c: "(1::nat) \<le> 4" by simp
  note T = C7_cooldown_bands [OF a b c]
  have v: "cool_down_time ?cfg 4 = 20"
    using T [THEN conjunct1] by simp
  have "cool_down_time ?cfg 1 \<le> cool_down_time ?cfg 4"
    using T [THEN conjunct2, THEN conjunct2, THEN conjunct1] .
  with v show ?thesis by simp
qed

subsection \<open>Volatility gate\<close>

lemma list_max_Max: "xs \<noteq> [] \<Longrightarrow> list_max xs = Max (set xs)"
  by (cases xs) (simp_all add: Max.set_eq_fold del: set_simps)

lemma list_min_Min: "xs \<noteq> [] \<Longrightarrow> list_min xs = Min (set xs)"
  by (cases xs) (simp_all add: Min.set_eq_fold del: set_simps)

lemma recent_prices_idem: "recent_prices now (recent_prices now h) = recent_prices now h"
  by (simp add: recent_prices_def)

lemma fallback_when_few:
  "length (recent_prices now h) < 2 \<Longrightarrow>
   check_btc_volatility_safe now h A quote = check_volatility_fallback quote"
  by (simp add: check_btc_volatility_safe_def realtime_amplitude_check_def Let_def)

lemma realtime_only_recent:
  "realtime_amplitude_check now (recent_prices now h) A = realtime_amplitude_check now h A"
proof (cases "length (recent_prices now h) < 2")
  case True
  have "realtime_amplitude_check now h A = NeedsFallback"
    using True by (simp add: realtime_amplitude_check_def Let_def)
  moreover have "realtime_amplitude_check now (recent_prices now h) A = NeedsFallback"
    using True by (simp add: realtime_amplitude_check_def [of now "recent_prices now h"]
        recent_prices_idem Let_def)
  ultimately show ?thesis by simp
next
  case False
  then have "recent_prices now h \<noteq> []" "h \<noteq> []"
    by (auto simp: recent_prices_def)
  then show ?thesis
    by (simp add: realtime_amplitude_check_def recent_prices_idem Let_def)
qed

lemma percent_threshold: "(y * 100 > 0.5) = (y > (0.005::real))"
  by auto

lemma realtime_verdict:
  assumes "2 \<le> length (recent_prices now h)"
    and "btc_price (last (recent_prices now h)) \<noteq> 0"
  shows "realtime_amplitude_check now h A =
     Verdict (\<not> (Max (btc_price ` set (recent_prices now h))
                   - Min (btc_price ` set (recent_prices now h)) > A
               \<or> (Max (btc_price ` set (recent_prices now h))
                   - Min (btc_price ` set (recent_prices now h)))
                  / btc_price (last (recent_prices now h)) > 0.005))"
proof -
  let ?r = "recent_prices now h"
  let ?ps = "map btc_price ?r"
  have ne: "?r \<noteq> []" "h \<noteq> []" using assms(1) by (auto simp: recent_prices_def)
  have hi: "list_max ?ps = Max (btc_price ` set ?r)"
    using ne by (simp add: list_max_Max)
  have lo: "list_min ?ps = Min (btc_price ` set ?r)"
    using ne by (simp add: list_min_Min)
  have le: "Min (btc_price ` set ?r) \<le> Max (btc_price ` set ?r)"
    using ne by (simp add: Min_le_iff)
  have la: "last ?ps = btc_price (last ?r)"
    using ne by (simp add: last_map)
  have n2: "\<not> length ?r < 2" using assms(1) by simp
  have ab: "\<bar>Max (btc_price ` set ?r) - Min (btc_price ` set ?r)\<bar> =
      Max (btc_price ` set ?r) - Min (btc_price ` set ?r)"
    using le by simp
  show ?thesis
    unfolding realtime_amplitude_check_def Let_def hi lo la ab percent_threshold
    using ne(2) n2 assms(2) by simp
qed

text \<open>
  C3: with at least two samples in the last 60 seconds, trading is unsafe if the amplitude
  exceeds the maximum or 0.5 percent of the latest price. The code departs from this, and
  from the documentation of \<open>check_btc_volatility_safe\<close> (False when the amplitude is too
  large), when the latest of the recent samples has the price 0: the unguarded division by
  the latest price raises before the amplitude test is reached, the exception handler
  takes the 24-hour fallback, and an amplitude of 200 against a maximum of 105 is let
  through. The verdict C3 asks for does not depend on the quotient here, the amplitude
  alone exceeds the maximum.
\<close>

theorem C3_zero_latest_price_defect:
  "is_volatility_safe_spec 2
     [\<lparr>btc_price = 200, timestamp = 0\<rparr>, \<lparr>btc_price = 0, timestamp = 1\<rparr>] 105 0.01 = False
   \<and> check_btc_volatility_safe 2
       [\<lparr>btc_price = 200, timestamp = 0\<rparr>, \<lparr>btc_price = 0, timestamp = 1\<rparr>] 105
       (QuoteData [Ticker (Num 0.01)]) = (True, [Get24HourQuote])"
  by (simp add: is_volatility_safe_spec_def check_btc_volatility_safe_def
      realtime_amplitude_check_def recent_prices_def check_volatility_fallback_def Let_def)

text \<open>
  Where the latest price is not 0 the code does what is documented: the check depends on the samples
  of the last 60 seconds only; with at least two of them, trading is unsafe exactly if the
  amplitude (highest minus lowest price) exceeds the maximum or the amplitude divided by
  the latest price exceeds 0.5 percent, and no quote is requested; with fewer than two the
  24-hour fallback decides, and it rejects exactly if a 24-hour change was obtained and
  exceeds 3 percent in absolute value.
\<close>

lemma volatility_check_nonzero_latest:
  "check_btc_volatility_safe now h A quote =
     check_btc_volatility_safe now (recent_prices now h) A quote
   \<and> set (recent_prices now h) = {s \<in> set h. timestamp s > now - 60}
   \<and> (2 \<le> length (recent_prices now h) \<and> btc_price (last (recent_prices now h)) \<noteq> 0 \<longrightarrow>
       check_btc_volatility_safe now h A quote =
         (\<not> (Max (btc_price ` set (recent_prices now h))
                - Min (btc_price ` set (recent_prices now h)) > A
             \<or> (Max (btc_price ` set (recent_prices now h))
                - Min (btc_price ` set (recent_prices now h)))
               / btc_price (last (recent_prices now h)) > 0.005), []))
   \<and> (length (recent_prices now h) < 2 \<longrightarrow>
       check_btc_volatility_safe now h A quote = check_volatility_fallback quote)
   \<and> (fst (check_volatility_fallback quote) = False \<longleftrightarrow>
       (\<exists>c. price_change_percent quote = Some c \<and> \<bar>c\<bar> > 0.03))"
proof -
  let ?r = "recent_prices now h"
  have 1: "check_btc_volatility_safe now h A quote = check_btc_volatility_safe now ?r A quote"
    by (simp add: check_btc_volatility_safe_def realtime_only_recent)
  have 2: "set ?r = {s \<in> set h. timestamp s > now - 60}"
    by (auto simp: recent_prices_def)
  have 3: "2 \<le> length ?r \<and> btc_price (last ?r) \<noteq> 0 \<longrightarrow>
       check_btc_volatility_safe now h A quote =
         (\<not> (Max (btc_price ` set ?r) - Min (btc_price ` set ?r) > A
             \<or> (Max (btc_price ` set ?r) - Min (btc_price ` set ?r))
               / btc_price (last ?r) > 0.005), [])"
    by (simp add: check_btc_volatility_safe_def realtime_verdict)
  have 4: "length ?r < 2 \<longrightarrow>
       check_btc_volatility_safe now h A quote = check_volatility_fallback quote"
    by (simp add: fallback_when_few)
  have 5: "fst (check_volatility_fallback quote) = False \<longleftrightarrow>
       (\<exists>c. price_change_percent quote = Some c \<and> \<bar>c\<bar> > 0.03)"
    by (cases "price_change_percent quote") (simp_all add: check_volatility_fallback_def)
  from 1 2 3 4 5 show ?thesis by blast
qed

lemma volatility_check_examples:
  "check_btc_volatility_safe 100
     [\<lparr>btc_price = 50000, timestamp = 10\<rparr>, \<lparr>btc_price = 60000, timestamp = 50\<rparr>,
      \<lparr>btc_price = 60100, timestamp = 90\<rparr>] 105 QuoteRaises = (True, [])
   \<and> check_btc_volatility_safe 100
     [\<lparr>btc_price = 60000, timestamp = 50\<rparr>, \<lparr>btc_price = 60110, timestamp = 90\<rparr>]
     105 QuoteRaises = (False, [])
   \<and> check_btc_volatility_safe 100
     [\<lparr>btc_price = 60000, timestamp = 10\<rparr>, \<lparr>btc_price = 60110, timestamp = 90\<rparr>]
     105 (QuoteData [Ticker (Num 0.04)]) = (False, [Get24HourQuote])"
proof -
  let ?h1 = "[\<lparr>btc_price = 50000, timestamp = 10\<rparr>, \<lparr>btc_price = 60000, timestamp = 50\<rparr>,
      \<lparr>btc_price = 60100, timestamp = 90\<rparr>]"
  let ?h2 = "[\<lparr>btc_price = 60000, timestamp = 50\<rparr>, \<lparr>btc_price = 60110, timestamp = 90\<rparr>]"
  let ?h3 = "[\<lparr>btc_price = 60000, timestamp = 10\<rparr>, \<lparr>btc_price = 60110, timestamp = 90\<rparr>]"
  have r1: "recent_prices 100 ?h1 =
      [\<lparr>btc_price = 60000, timestamp = 50\<rparr>, \<lparr>btc_price = 60100, timestamp = 90\<rparr>]"
    by (simp add: recent_prices_def)
  have r2: "recent_prices 100 ?h2 = ?h2"
    by (simp add: recent_prices_def)
  have r3: "recent_prices 100 ?h3 = [\<lparr>btc_price = 60110, timestamp = 90\<rparr>]"
    by (simp add: recent_prices_def)
  have a: "check_btc_volatility_safe 100 ?h1 105 QuoteRaises = (True, [])"
    using volatility_check_nonzero_latest [of 100 ?h1 105 QuoteRaises, THEN conjunct2, THEN conjunct2,
        THEN conjunct1]
    unfolding r1 by simp
  have b: "check_btc_volatility_safe 100 ?h2 105 QuoteRaises = (False, [])"
    using volatility_check_nonzero_latest [of 100 ?h2 105 QuoteRaises, THEN conjunct2, THEN conjunct2,
        THEN conjunct1]
    unfolding r2 by simp
  have c: "check_btc_volatility_safe 100 ?h3 105 (QuoteData [Ticker (Num 0.04)]) =
      (False, [Get24HourQuote])"
    using volatility_check_nonzero_latest [of 100 ?h3 105 "QuoteData [Ticker (Num 0.04)]",
        THEN conjunct2, THEN conjunct2, THEN conjunct2, THEN conjunct1]
    unfolding r3 by (simp add: check_volatility_fallback_def)
  from a b c show ?thesis by blast
qed

text \<open>
  C10: the gate fails open. When the realtime check raises, the result is that of the
  24-hour fallback; the fallback allows trading whenever the quote request raises, returns
  nothing, is not a success or has data of an unexpected shape; so with no usable realtime
  samples (fewer than two recent ones, or the check raising) and a failing quote, the gate
  allows trading.
\<close>

theorem C10_volatility_gate_fails_open:
  "(realtime_amplitude_check now h A = CheckRaised \<longrightarrow>
      check_btc_volatility_safe now h A quote = check_volatility_fallback quote)
   \<and> (quote_fails quote \<longrightarrow> check_volatility_fallback quote = (True, [Get24HourQuote]))
   \<and> (quote_fails quote \<and>
        (length (recent_prices now h) < 2 \<or> realtime_amplitude_check now h A = CheckRaised) \<longrightarrow>
      fst (check_btc_volatility_safe now h A quote) = True)"
proof -
  have 1: "realtime_amplitude_check now h A = CheckRaised \<longrightarrow>
      check_btc_volatility_safe now h A quote = check_volatility_fallback quote"
    by (simp add: check_btc_volatility_safe_def)
  have 2: "quote_fails quote \<longrightarrow> check_volatility_fallback quote = (True, [Get24HourQuote])"
    by (induction quote rule: quote_fails.induct)
      (simp_all add: check_volatility_fallback_def)
  have 3: "quote_fails quote \<and>
        (length (recent_prices now h) < 2 \<or> realtime_amplitude_check now h A = CheckRaised) \<longrightarrow>
      fst (check_btc_volatility_safe now h A quote) = True"
    using 1 2 by (auto simp: fallback_when_few)
  from 1 2 3 show ?thesis by blast
qed

theorem C10_volatility_gate_fails_open_witness:
  "realtime_amplitude_check 2
     [\<lparr>btc_price = 200, timestamp = 0\<rparr>, \<lparr>btc_price = 0, timestamp = 1\<rparr>] 105 = CheckRaised
   \<and> quote_fails QuoteRaises
   \<and> check_btc_volatility_safe 2
       [\<lparr>btc_price = 200, timestamp = 0\<rparr>, \<lparr>btc_price = 0, timestamp = 1\<rparr>] 105 QuoteRaises =
     (True, [Get24HourQuote])
   \<and> fst (check_btc_volatility_safe 2 [] 105 QuoteNotSuccess) = True"
proof -
  let ?h = "[\<lparr>btc_price = 200, timestamp = 0\<rparr>, \<lparr>btc_price = 0, timestamp = 1\<rparr>]"
  have r: "realtime_amplitude_check 2 ?h 105 = CheckRaised"
    by (simp add: realtime_amplitude_check_def recent_prices_def Let_def)
  have q: "quote_fails QuoteRaises" by simp
  note T = C10_volatility_gate_fails_open [of 2 ?h 105 QuoteRaises]
  have a: "check_btc_volatility_safe 2 ?h 105 QuoteRaises = check_volatility_fallback QuoteRaises"
    using T [THEN conjunct1] r by blast
  have b: "check_volatility_fallback QuoteRaises = (True, [Get24HourQuote])"
    using T [THEN conjunct2, THEN conjunct1] q by blast
  have c: "fst (check_btc_volatility_safe 2 [] 105 QuoteNotSuccess) = True"
    using C10_volatility_gate_fails_open [of 2 "[]" 105 QuoteNotSuccess,
        THEN conjunct2, THEN conjunct2]
    by (simp add: recent_prices_def)
  from r q a b c show ?thesis by simp
qed

subsection \<open>Reconciliation\<close>

lemma tally_order_exposure:
  assumes "tally_order order (b, s, ts) = (b', s', ts')"
  shows "b' - s' - net_exposure ts' = b - s - net_exposure ts"
proof (cases order)
  case ActiveOrderNotADict
  with assms show ?thesis by simp
next
  case (ActiveOrder c i sd sz)
  show ?thesis
  proof (cases "float_get sz 0")
    case None
    with assms ActiveOrder show ?thesis by simp
  next
    case (Some v)
    with assms ActiveOrder show ?thesis
      by (auto simp: Let_def net_exposure_def tracked_size_def split: if_splits)
  qed
qed

lemma fold_tally_exposure:
  "fold tally_order os (b, s, ts) = (b', s', ts') \<Longrightarrow>
   b' - s' - net_exposure ts' = b - s - net_exposure ts"
proof (induction os arbitrary: b s ts)
  case Nil
  then show ?case by simp
next
  case (Cons order os)
  obtain b1 s1 ts1 where step: "tally_order order (b, s, ts) = (b1, s1, ts1)"
    by (cases "tally_order order (b, s, ts)") auto
  with Cons.prems have "fold tally_order os (b1, s1, ts1) = (b', s', ts')" by simp
  then have "b' - s' - net_exposure ts' = b1 - s1 - net_exposure ts1"
    by (rule Cons.IH)
  with tally_order_exposure [OF step] show ?case by simp
qed

lemma tally_net_exposure:
  "fold tally_order os (0, 0, []) = (b, s, ts) \<Longrightarrow> b - s = net_exposure ts"
  using fold_tally_exposure [of os 0 0 "[]" b s ts] by (simp add: net_exposure_def)

lemma fold_tally_tracked:
  "fold tally_order os (b, s, ts) = (b', s', ts') \<Longrightarrow> ts' = ts @ concat (map track os)"
proof (induction os arbitrary: b s ts)
  case Nil
  then show ?case by simp
next
  case (Cons order os)
  obtain b1 s1 ts1 where step: "tally_order order (b, s, ts) = (b1, s1, ts1)"
    by (cases "tally_order order (b, s, ts)") auto
  then have t1: "ts1 = ts @ track order"
    by (cases order) (auto simp: Let_def split: option.splits)
  from Cons.prems step have "fold tally_order os (b1, s1, ts1) = (b', s', ts')" by simp
  then have "ts' = ts1 @ concat (map track os)" by (rule Cons.IH)
  with t1 show ?case by simp
qed

text \<open>
  C2, as stated, fails when the position read of the status line raises inside the check
  (here an open size that is not a number): the handler of the check logs the error and
  skips the comparison, so a net exposure of -5 against an expected 0, a mismatch of 5
  with twice the order quantity being 2, requests no shutdown.
\<close>

theorem C2_counterexample:
  "\<not> shutdown_requested (fst (log_status_periodically
      \<lparr>contract_id = ''10000001'', quantity = 1, take_profit_percentage = 0.003,
        direction = ''buy'', max_orders = 6, wait_time = 10\<rparr> 100
      \<lparr>active_close_orders = [], last_close_orders = 0, last_open_order_time = 0,
        last_log_time = 0, current_order_status = ''PENDING'', order_filled_event = False,
        shutdown_requested = False\<rparr>
      (ActiveData [ActiveOrder (Some ''10000001'') (Some ''a1'') (Some ''SELL'') (Num 5)])
      (PositionsData [Position (Some ''10000001'') Malformed (Some ''LONG'')])
      (PositionsData [Position (Some ''10000001'') Malformed (Some ''LONG'')])))
   \<and> net_exposure (concat (map track (get_active_orders ''10000001''
        (ActiveData [ActiveOrder (Some ''10000001'') (Some ''a1'') (Some ''SELL'') (Num 5)]))))
      = - 5
   \<and> get_current_inventory
       \<lparr>contract_id = ''10000001'', quantity = 1, take_profit_percentage = 0.003,
        direction = ''buy'', max_orders = 6, wait_time = 10\<rparr>
       (PositionsData [Position (Some ''10000001'') Malformed (Some ''LONG'')]) = 0
   \<and> \<bar>- 5 - (- 0)\<bar> > 2 * (1::real)"
proof -
  have up: "upper ''SELL'' = ''SELL''" by (simp add: upper_def upper_char_def)
  show ?thesis
    by (simp add: log_status_periodically_def up Let_def net_exposure_def tracked_size_def
        get_current_inventory_def)
qed

text \<open>
  C2 (amended): when the periodic check is due, the tracked take-profit orders are rebuilt
  from the exchange's active orders of the contract (those with a readable size), and a
  shutdown is requested exactly if one was requested already, or the position read of the
  status line does not raise and the net exposure of those orders (BUY sizes minus SELL
  sizes) differs in absolute value from the negated inventory by more than twice the order
  quantity. A position read that raises ends the check for this cycle without the
  comparison. The check only reads from the exchange: it submits and cancels no order.
\<close>

theorem C2_reconciliation_shutdown:
  assumes "now - last_log_time st > 60 \<or> last_log_time st = 0"
  shows "active_close_orders (fst (log_status_periodically cfg now st active positions1 positions2))
      = concat (map track (get_active_orders (contract_id cfg) active))
    \<and> shutdown_requested (fst (log_status_periodically cfg now st active positions1 positions2))
      = (shutdown_requested st
         \<or> (position_amt (contract_id cfg) (get_account_positions positions1) \<noteq> None
            \<and> \<bar>net_exposure (concat (map track (get_active_orders (contract_id cfg) active)))
                - (- get_current_inventory cfg positions2)\<bar> > 2 * quantity cfg))
    \<and> snd (log_status_periodically cfg now st active positions1 positions2) =
        (if position_amt (contract_id cfg) (get_account_positions positions1) = None
         then [GetActiveOrders, GetAccountPositions]
         else [GetActiveOrders, GetAccountPositions, GetAccountPositions])
    \<and> orders_submitted (snd (log_status_periodically cfg now st active positions1 positions2)) = []"
proof -
  obtain b s ts where t: "fold tally_order (get_active_orders (contract_id cfg) active) (0, 0, [])
      = (b, s, ts)"
    by (cases "fold tally_order (get_active_orders (contract_id cfg) active) (0, 0, [])") auto
  have e: "b - s = net_exposure ts" using t by (rule tally_net_exposure)
  have tr: "ts = concat (map track (get_active_orders (contract_id cfg) active))"
    using fold_tally_tracked [OF t] by simp
  let ?fatal = "\<bar>net_exposure ts - (- get_current_inventory cfg positions2)\<bar> > 2 * quantity cfg"
  show ?thesis
  proof (cases "position_amt (contract_id cfg) (get_account_positions positions1)")
    case None
    have "log_status_periodically cfg now st active positions1 positions2 =
        (st\<lparr>active_close_orders := ts, last_log_time := now\<rparr>,
         [GetActiveOrders, GetAccountPositions])"
      using assms by (simp add: log_status_periodically_def t None Let_def)
    then show ?thesis by (simp add: None tr orders_submitted_def)
  next
    case (Some amt)
    have "log_status_periodically cfg now st active positions1 positions2 =
      (if ?fatal then st\<lparr>active_close_orders := ts, shutdown_requested := True\<rparr>
       else st\<lparr>active_close_orders := ts, last_log_time := now\<rparr>,
       [GetActiveOrders, GetAccountPositions, GetAccountPositions])"
      using assms by (simp add: log_status_periodically_def t Some e Let_def)
    then show ?thesis by (simp add: Some tr [symmetric] orders_submitted_def)
  qed
qed

theorem C2_reconciliation_shutdown_witness:
  "shutdown_requested (fst (log_status_periodically
      \<lparr>contract_id = ''10000001'', quantity = 1, take_profit_percentage = 0.003,
        direction = ''buy'', max_orders = 6, wait_time = 10\<rparr> 100
      \<lparr>active_close_orders = [], last_close_orders = 0, last_open_order_time = 0,
        last_log_time = 0, current_order_status = ''PENDING'', order_filled_event = False,
        shutdown_requested = False\<rparr>
      (ActiveData [ActiveOrder (Some ''10000001'') (Some ''a1'') (Some ''SELL'') (Num 1)])
      (PositionsData [Position (Some ''10000001'') (Num 4) (Some ''LONG'')])
      (PositionsData [Position (Some ''10000001'') (Num 4) (Some ''LONG'')])))
   \<and> \<not> shutdown_requested (fst (log_status_periodically
      \<lparr>contract_id = ''10000001'', quantity = 1, take_profit_percentage = 0.003,
        direction = ''buy'', max_orders = 6, wait_time = 10\<rparr> 100
      \<lparr>active_close_orders = [], last_close_orders = 0, last_open_order_time = 0,
        last_log_time = 0, current_order_status = ''PENDING'', order_filled_event = False,
        shutdown_requested = False\<rparr>
      (ActiveData [ActiveOrder (Some ''10000001'') (Some ''a1'') (Some ''SELL'') (Num 1)])
      (PositionsData [Position (Some ''10000001'') (Num 3) (Some ''LONG'')])
      (PositionsData [Position (Some ''10000001'') (Num 3) (Some ''LONG'')])))"
proof -
  let ?cfg = "\<lparr>contract_id = ''10000001'', quantity = 1, take_profit_percentage = 0.003,
        direction = ''buy'', max_orders = 6, wait_time = 10\<rparr>"
  let ?st = "\<lparr>active_close_orders = [], last_close_orders = 0, last_open_order_time = 0,
        last_log_time = 0, current_order_status = ''PENDING'', order_filled_event = False,
        shutdown_requested = False\<rparr>"
  let ?act = "ActiveData [ActiveOrder (Some ''10000001'') (Some ''a1'') (Some ''SELL'') (Num 1)]"
  let ?p4 = "PositionsData [Position (Some ''10000001'') (Num 4) (Some ''LONG'')]"
  let ?p3 = "PositionsData [Position (Some ''10000001'') (Num 3) (Some ''LONG'')]"
  have due: "100 - last_log_time ?st > 60 \<or> last_log_time ?st = 0" by simp
  have up: "upper ''SELL'' = ''SELL''" by (simp add: upper_def upper_char_def)
  have ne: "net_exposure (concat (map track (get_active_orders (contract_id ?cfg) ?act))) = - 1"
    by (simp add: net_exposure_def tracked_size_def up)
  have i4: "get_current_inventory ?cfg ?p4 = 4" by (simp add: get_current_inventory_def)
  have i3: "get_current_inventory ?cfg ?p3 = 3" by (simp add: get_current_inventory_def)
  have f: "shutdown_requested (fst (log_status_periodically ?cfg 100 ?st ?act ?p4 ?p4))"
    using C2_reconciliation_shutdown [OF due, of ?cfg ?act ?p4 ?p4, THEN conjunct2, THEN conjunct1]
    unfolding ne i4 by simp
  have g: "\<not> shutdown_requested (fst (log_status_periodically ?cfg 100 ?st ?act ?p3 ?p3))"
    using C2_reconciliation_shutdown [OF due, of ?cfg ?act ?p3 ?p3, THEN conjunct2, THEN conjunct1]
    unfolding ne i3 by simp
  from f g show ?thesis by blast
qed

subsection \<open>The retry loop of the open order\<close>

lemma book_ok_shape:
  "book_ok b \<Longrightarrow>
   \<exists>bb bs ba as. b = BookEntry (Some bb # bs) (Some ba # as) \<and> bb > 0 \<and> ba > 0"
  by (induction b rule: book_ok.induct) auto

lemma order_id_of_shape:
  "order_id_of c \<noteq> [] \<Longrightarrow> \<exists>i. c = CreateData (Some i) \<and> i \<noteq> []"
  by (induction c rule: order_id_of.induct) auto

lemma complete_roundE:
  assumes "complete_round a"
  obtains bb bs ba as i where "at_book a = BookEntry (Some bb # bs) (Some ba # as)"
    and "bb > 0" and "ba > 0" and "at_created a = CreateData (Some i)" and "i \<noteq> []"
  using assms book_ok_shape [of "at_book a"] order_id_of_shape [of "at_created a"]
  unfolding complete_round_def by blast

lemma open_attempt_rejected:
  assumes "maker_rejected a"
  shows "open_attempt cc cid qty dir a = (Canceled, open_round_calls cc cid qty dir a)"
proof -
  from assms have c: "complete_round a" and s: "reported_status a = Some ''CANCELED''"
    by (simp_all add: maker_rejected_def)
  from c obtain bb bs ba as i where "at_book a = BookEntry (Some bb # bs) (Some ba # as)"
    "bb > 0" "ba > 0" "at_created a = CreateData (Some i)" "i \<noteq> []"
    by (rule complete_roundE)
  with s show ?thesis
    by (auto simp: open_attempt_def open_submitted_def open_round_calls_def
        reported_status_def Let_def split: option.splits)
qed

lemma open_attempt_accepted:
  assumes "accepted a"
  shows "open_attempt cc cid qty dir a =
     (Return (StatusOk \<lparr>order_id = order_id_of (at_created a),
                side = SideValue (open_order_side dir), size = qty,
                price = open_order_price cc dir (best_bid_of (at_book a)) (best_ask_of (at_book a)),
                status = reported_status a\<rparr>),
      open_round_calls cc cid qty dir a)"
proof -
  from assms have c: "complete_round a"
    and s: "reported_status a = Some ''OPEN'' \<or> reported_status a = Some ''PARTIALLY_FILLED''
      \<or> reported_status a = Some ''FILLED''"
    by (simp_all add: accepted_def)
  from c obtain bb bs ba as i where "at_book a = BookEntry (Some bb # bs) (Some ba # as)"
    "bb > 0" "ba > 0" "at_created a = CreateData (Some i)" "i \<noteq> []"
    by (rule complete_roundE)
  with s show ?thesis
    by (auto simp: open_attempt_def open_submitted_def open_round_calls_def
        reported_status_def Let_def split: option.splits)
qed

lemma open_attempt_orders:
  "length (orders_submitted (snd (open_attempt cc cid qty dir a))) \<le> 1"
  by (auto simp: open_attempt_def open_submitted_def orders_submitted_def Let_def
      split: book_result.splits option.splits create_result.splits)

lemma orders_submitted_after_calls:
  "orders_submitted (snd (after_calls calls r)) =
   orders_submitted calls @ orders_submitted (snd r)"
  by (cases r) (simp add: orders_submitted_def)

lemma place_open_order_from_bound:
  "length (orders_submitted (snd (place_open_order_from cc cid qty dir responses k)))
   \<le> max_retries - k"
proof (induction cc cid qty dir responses k rule: place_open_order_from.induct)
  case (1 cc cid qty dir responses k)
  obtain out calls where a: "open_attempt cc cid qty dir (responses k) = (out, calls)"
    by (cases "open_attempt cc cid qty dir (responses k)") auto
  have c: "length (orders_submitted calls) \<le> 1"
    using open_attempt_orders [of cc cid qty dir "responses k"] a by simp
  show ?case
  proof (cases "k < max_retries")
    case False
    then show ?thesis
      by (simp add: place_open_order_from.simps [of cc cid qty dir responses k]
          orders_submitted_def)
  next
    case True
    show ?thesis
    proof (cases "k < max_retries - 1")
      case False
      with True c show ?thesis
        by (cases out)
          (simp_all add: place_open_order_from.simps [of cc cid qty dir responses k] a)
    next
      case less: True
      show ?thesis
      proof (cases out)
        case (Return r)
        with True c show ?thesis
          by (simp add: place_open_order_from.simps [of cc cid qty dir responses k] a)
      next
        case Canceled
        with "1.IH"(1) [OF True a [symmetric]] less True
        have "length (orders_submitted
            (snd (place_open_order_from cc cid qty dir responses (k + 1))))
            \<le> max_retries - (k + 1)"
          by simp
        with Canceled True less c show ?thesis
          by (simp add: place_open_order_from.simps [of cc cid qty dir responses k] a
              orders_submitted_after_calls)
      next
        case Raised
        with "1.IH"(2) [OF True a [symmetric]] less True
        have "length (orders_submitted
            (snd (place_open_order_from cc cid qty dir responses (k + 1))))
            \<le> max_retries - (k + 1)"
          by simp
        with Raised True less c show ?thesis
          by (simp add: place_open_order_from.simps [of cc cid qty dir responses k] a
              orders_submitted_after_calls)
      qed
    qed
  qed
qed

lemma rejected_run:
  assumes "\<forall>i. k \<le> i \<and> i < max_retries \<longrightarrow> maker_rejected (responses i)"
    and "k + n = max_retries - 1"
  shows "place_open_order_from cc cid qty dir responses k =
     (StatusError (Msg ''Order rejected after 15 attempts''),
      concat (map (\<lambda>i. open_round_calls cc cid qty dir (responses i)) [k..<max_retries]))"
  using assms
proof (induction n arbitrary: k)
  case 0
  then have k: "k = max_retries - 1" by simp
  then have "maker_rejected (responses k)" using "0.prems"(1) by (simp add: max_retries_def)
  then have a: "open_attempt cc cid qty dir (responses k) =
      (Canceled, open_round_calls cc cid qty dir (responses k))"
    by (rule open_attempt_rejected)
  have u: "[k..<max_retries] = [k]" using k by (simp add: max_retries_def)
  have lt: "k < max_retries" "\<not> k < max_retries - 1" using k by (simp_all add: max_retries_def)
  show ?case
    using lt by (simp add: place_open_order_from.simps [of cc cid qty dir responses k] a u)
next
  case (Suc n)
  then have k: "k < max_retries - 1" by simp
  then have "maker_rejected (responses k)" using Suc.prems(1) by simp
  then have a: "open_attempt cc cid qty dir (responses k) =
      (Canceled, open_round_calls cc cid qty dir (responses k))"
    by (rule open_attempt_rejected)
  have "place_open_order_from cc cid qty dir responses (k + 1) =
     (StatusError (Msg ''Order rejected after 15 attempts''),
      concat (map (\<lambda>i. open_round_calls cc cid qty dir (responses i)) [k + 1..<max_retries]))"
    using Suc.prems by (intro Suc.IH) auto
  moreover have "[k..<max_retries] = k # [k + 1..<max_retries]"
    using k by (simp add: upt_conv_Cons)
  ultimately show ?case
    using k by (simp add: place_open_order_from.simps [of cc cid qty dir responses k] a)
qed

lemma accepted_run:
  assumes "N < max_retries" and "k + n = N"
    and "\<forall>i. k \<le> i \<and> i < N \<longrightarrow> maker_rejected (responses i)"
    and "accepted (responses N)"
  shows "place_open_order_from cc cid qty dir responses k =
     (StatusOk \<lparr>order_id = order_id_of (at_created (responses N)),
        side = SideValue (open_order_side dir), size = qty,
        price = open_order_price cc dir (best_bid_of (at_book (responses N)))
                  (best_ask_of (at_book (responses N))),
        status = reported_status (responses N)\<rparr>,
      concat (map (\<lambda>i. open_round_calls cc cid qty dir (responses i)) [k..<Suc N]))"
  using assms
proof (induction n arbitrary: k)
  case 0
  then have k: "k = N" by simp
  have a: "open_attempt cc cid qty dir (responses N) =
     (Return (StatusOk \<lparr>order_id = order_id_of (at_created (responses N)),
        side = SideValue (open_order_side dir), size = qty,
        price = open_order_price cc dir (best_bid_of (at_book (responses N)))
                  (best_ask_of (at_book (responses N))),
        status = reported_status (responses N)\<rparr>),
      open_round_calls cc cid qty dir (responses N))"
    using "0.prems"(4) by (rule open_attempt_accepted)
  show ?case
    using "0.prems"(1)
    by (simp add: k place_open_order_from.simps [of cc cid qty dir responses N] a)
next
  case (Suc n)
  then have k: "k < N" by simp
  then have "maker_rejected (responses k)" using Suc.prems(3) by simp
  then have a: "open_attempt cc cid qty dir (responses k) =
      (Canceled, open_round_calls cc cid qty dir (responses k))"
    by (rule open_attempt_rejected)
  have "place_open_order_from cc cid qty dir responses (k + 1) =
     (StatusOk \<lparr>order_id = order_id_of (at_created (responses N)),
        side = SideValue (open_order_side dir), size = qty,
        price = open_order_price cc dir (best_bid_of (at_book (responses N)))
                  (best_ask_of (at_book (responses N))),
        status = reported_status (responses N)\<rparr>,
      concat (map (\<lambda>i. open_round_calls cc cid qty dir (responses i)) [k + 1..<Suc N]))"
    using Suc.prems by (intro Suc.IH) auto
  moreover have "[k..<Suc N] = k # [k + 1..<Suc N]"
    using k by (simp add: upt_conv_Cons)
  moreover have "k < max_retries - 1" using k Suc.prems(1) by simp
  ultimately show ?case
    using Suc.prems(1) k
    by (simp add: place_open_order_from.simps [of cc cid qty dir responses k] a)
qed

lemma orders_in_rounds:
  "length (orders_submitted
     (concat (map (\<lambda>i. open_round_calls cc cid qty dir (responses i)) [k..<m]))) = m - k"
proof (induction m)
  case 0
  show ?case by (simp add: orders_submitted_def)
next
  case (Suc m)
  then show ?case
    by (cases "k \<le> m") (auto simp: orders_submitted_def open_round_calls_def)
qed

text \<open>
  C4: when the first \<open>N \<le> 14\<close> submissions are maker-rejected and the next one is accepted,
  \<^const>\<open>place_open_order\<close> returns status ok with the order id, the price and the status
  of that submission, after \<open>N + 1\<close> rounds. When the first 15 submissions are
  maker-rejected it returns the error result of the exhausted retries after exactly 15
  submissions. Every round is an order-book read, the submission priced from it, and the
  status read. Whatever the exchange answers, the function returns a result, after at most
  15 submissions.
\<close>

theorem C4_open_order_retries:
  "(N \<le> 14 \<and> (\<forall>i<N. maker_rejected (responses i)) \<and> accepted (responses N) \<longrightarrow>
      place_open_order cc cid qty dir responses =
        (StatusOk \<lparr>order_id = order_id_of (at_created (responses N)),
           side = SideValue (open_order_side dir), size = qty,
           price = open_order_price cc dir (best_bid_of (at_book (responses N)))
                     (best_ask_of (at_book (responses N))),
           status = reported_status (responses N)\<rparr>,
         concat (map (\<lambda>i. open_round_calls cc cid qty dir (responses i)) [0..<Suc N])))
   \<and> ((\<forall>i<15. maker_rejected (responses i)) \<longrightarrow>
      place_open_order cc cid qty dir responses =
        (StatusError (Msg ''Order rejected after 15 attempts''),
         concat (map (\<lambda>i. open_round_calls cc cid qty dir (responses i)) [0..<15]))
      \<and> length (orders_submitted (snd (place_open_order cc cid qty dir responses))) = 15)
   \<and> length (orders_submitted (snd (place_open_order cc cid qty dir responses))) \<le> 15"
proof -
  have 1: "N \<le> 14 \<and> (\<forall>i<N. maker_rejected (responses i)) \<and> accepted (responses N) \<longrightarrow>
      place_open_order cc cid qty dir responses =
        (StatusOk \<lparr>order_id = order_id_of (at_created (responses N)),
           side = SideValue (open_order_side dir), size = qty,
           price = open_order_price cc dir (best_bid_of (at_book (responses N)))
                     (best_ask_of (at_book (responses N))),
           status = reported_status (responses N)\<rparr>,
         concat (map (\<lambda>i. open_round_calls cc cid qty dir (responses i)) [0..<Suc N]))"
    unfolding place_open_order_def
    using accepted_run [of N 0 N responses cc cid qty dir]
    by (simp add: max_retries_def)
  have r: "(\<forall>i<15. maker_rejected (responses i)) \<longrightarrow>
      place_open_order cc cid qty dir responses =
        (StatusError (Msg ''Order rejected after 15 attempts''),
         concat (map (\<lambda>i. open_round_calls cc cid qty dir (responses i)) [0..<15]))"
    unfolding place_open_order_def
    using rejected_run [of 0 responses 14 cc cid qty dir]
    by (simp add: max_retries_def)
  have 2: "(\<forall>i<15. maker_rejected (responses i)) \<longrightarrow>
      place_open_order cc cid qty dir responses =
        (StatusError (Msg ''Order rejected after 15 attempts''),
         concat (map (\<lambda>i. open_round_calls cc cid qty dir (responses i)) [0..<15]))
      \<and> length (orders_submitted (snd (place_open_order cc cid qty dir responses))) = 15"
    using r orders_in_rounds [of cc cid qty dir responses 0 15] by auto
  have 3: "length (orders_submitted (snd (place_open_order cc cid qty dir responses))) \<le> 15"
    unfolding place_open_order_def
    using place_open_order_from_bound [of cc cid qty dir responses 0]
    by (simp add: max_retries_def)
  from 1 2 3 show ?thesis by blast
qed

theorem C4_open_order_retries_witness:
  "place_open_order \<lparr>price_delta = 0.1, step_size = 0.1\<rparr> ''10000001'' 0.01 ''buy''
     (\<lambda>i. \<lparr>at_book = BookEntry [Some 100] [Some 100.1], at_created = CreateData (Some ''o1''),
            at_info = InfoData [\<lparr>od_status = Some ''CANCELED'', od_price = Num 100,
              od_cumFillSize = Num 0, od_side = Some ''BUY''\<rparr>]\<rparr>)
   = (StatusError (Msg ''Order rejected after 15 attempts''),
      concat (map (\<lambda>i. [GetOrderBookDepth,
        CreateLimitOrder ''10000001'' 0.01 100 BUY True, GetOrderById ''o1'']) [0..<15]))
   \<and> fst (place_open_order \<lparr>price_delta = 0.1, step_size = 0.1\<rparr> ''10000001'' 0.01 ''buy''
     (\<lambda>i. \<lparr>at_book = BookEntry [Some 100] [Some 100.1], at_created = CreateData (Some ''o1''),
            at_info = InfoData [\<lparr>od_status = Some (if i < 14 then ''CANCELED'' else ''OPEN''),
              od_price = Num 100, od_cumFillSize = Num 0, od_side = Some ''BUY''\<rparr>]\<rparr>))
   = StatusOk \<lparr>order_id = ''o1'', side = SideValue BUY, size = 0.01, price = 100,
       status = Some ''OPEN''\<rparr>"
proof -
  let ?cc = "\<lparr>price_delta = 0.1, step_size = 0.1\<rparr>"
  let ?rej = "\<lparr>at_book = BookEntry [Some 100] [Some 100.1], at_created = CreateData (Some ''o1''),
            at_info = InfoData [\<lparr>od_status = Some ''CANCELED'', od_price = Num 100,
              od_cumFillSize = Num 0, od_side = Some ''BUY''\<rparr>]\<rparr>"
  let ?late = "\<lambda>i::nat. \<lparr>at_book = BookEntry [Some 100] [Some 100.1],
            at_created = CreateData (Some ''o1''),
            at_info = InfoData [\<lparr>od_status = Some (if i < 14 then ''CANCELED'' else ''OPEN''),
              od_price = Num 100, od_cumFillSize = Num 0, od_side = Some ''BUY''\<rparr>]\<rparr>"
  have p: "open_order_price ?cc ''buy'' 100 100.1 = 100"
    by (simp add: open_order_price_def round_price_to_step_def py_round_def
        py_round_digits_def)
  have rc: "open_round_calls ?cc ''10000001'' 0.01 ''buy'' ?rej =
      [GetOrderBookDepth, CreateLimitOrder ''10000001'' 0.01 100 BUY True, GetOrderById ''o1'']"
    using p by (simp add: open_round_calls_def open_order_side_def)
  have all: "\<forall>i<15. maker_rejected ((\<lambda>i. ?rej) i)"
    by (simp add: maker_rejected_def complete_round_def reported_status_def)
  note T = C4_open_order_retries [of 0 "\<lambda>i. ?rej" ?cc "''10000001''" "0.01" "''buy''",
        THEN conjunct2, THEN conjunct1, THEN mp, OF all, THEN conjunct1]
  have a: "place_open_order ?cc ''10000001'' 0.01 ''buy'' (\<lambda>i. ?rej) =
      (StatusError (Msg ''Order rejected after 15 attempts''),
       concat (map (\<lambda>i. [GetOrderBookDepth,
        CreateLimitOrder ''10000001'' 0.01 100 BUY True, GetOrderById ''o1'']) [0..<15]))"
    using T unfolding rc .
  have h: "14 \<le> (14::nat) \<and> (\<forall>i<14. maker_rejected (?late i)) \<and> accepted (?late 14)"
    by (simp add: maker_rejected_def accepted_def complete_round_def reported_status_def)
  note U = C4_open_order_retries [of 14 ?late ?cc "''10000001''" "0.01" "''buy''",
        THEN conjunct1, THEN mp, OF h]
  have v: "order_id_of (at_created (?late 14)) = ''o1''"
    "open_order_side ''buy'' = BUY"
    "open_order_price ?cc ''buy'' (best_bid_of (at_book (?late 14)))
       (best_ask_of (at_book (?late 14))) = 100"
    "reported_status (?late 14) = Some ''OPEN''"
    using p by (simp_all add: open_order_side_def reported_status_def)
  have b: "fst (place_open_order ?cc ''10000001'' 0.01 ''buy'' ?late) =
      StatusOk \<lparr>order_id = ''o1'', side = SideValue BUY, size = 0.01, price = 100,
       status = Some ''OPEN''\<rparr>"
    unfolding U fst_conv v ..
  from a b show ?thesis by (rule conjI)
qed

subsection \<open>Fill detection\<close>

lemma handle_order_result_polls_first:
  "\<exists>rest. snd (snd (handle_order_result cfg cc st oid info1 cancel info2 responses)) =
     GetOrderById oid # rest"
  by (auto simp: handle_order_result_def Let_def split_def split: option.splits prod.splits)

text \<open>
  C6, as stated, fails in both directions: the handler does not look at the order id. A
  FILLED event of another order of the contract on the opening side sets the signal, and a
  FILLED event of the tracked order on the configured close side (an open order placed
  against the configured direction) does not.
\<close>

theorem C6_counterexample:
  "order_filled_event (order_update_handler
      \<lparr>contract_id = ''10000001'', quantity = 0.01, take_profit_percentage = 0.003,
        direction = ''buy'', max_orders = 6, wait_time = 10\<rparr>
      (Message ''ORDER_UPDATE'' [\<lparr>w_contractId = Some ''10000001'', w_id = Some ''other'',
         w_status = Some ''FILLED'', w_side = Some ''BUY''\<rparr>])
      \<lparr>active_close_orders = [], last_close_orders = 0, last_open_order_time = 0,
        last_log_time = 0, current_order_status = ''PENDING'', order_filled_event = False,
        shutdown_requested = False\<rparr>)
   \<and> \<not> fill_signal_spec ''10000001'' ''tracked''
      (Message ''ORDER_UPDATE'' [\<lparr>w_contractId = Some ''10000001'', w_id = Some ''other'',
         w_status = Some ''FILLED'', w_side = Some ''BUY''\<rparr>]) False
   \<and> \<not> order_filled_event (order_update_handler
      \<lparr>contract_id = ''10000001'', quantity = 0.01, take_profit_percentage = 0.003,
        direction = ''buy'', max_orders = 6, wait_time = 10\<rparr>
      (Message ''ORDER_UPDATE'' [\<lparr>w_contractId = Some ''10000001'', w_id = Some ''tracked'',
         w_status = Some ''FILLED'', w_side = Some ''SELL''\<rparr>])
      \<lparr>active_close_orders = [], last_close_orders = 0, last_open_order_time = 0,
        last_log_time = 0, current_order_status = ''PENDING'', order_filled_event = False,
        shutdown_requested = False\<rparr>)
   \<and> fill_signal_spec ''10000001'' ''tracked''
      (Message ''ORDER_UPDATE'' [\<lparr>w_contractId = Some ''10000001'', w_id = Some ''tracked'',
         w_status = Some ''FILLED'', w_side = Some ''SELL''\<rparr>]) False"
proof -
  have u: "upper ''sell'' = ''SELL''"
    by (simp add: upper_def upper_char_def)
  show ?thesis
    by (simp add: order_update_handler_def fill_signal_spec_def close_order_side_def u)
qed

text \<open>
  C6 (amended): the handler sets the fill signal exactly when the message is an
  ORDER_UPDATE event whose first order is of the configured contract, has the status
  FILLED and a side other than the configured close side, whatever its order id; every
  other message leaves the signal, and the rest of the state, unchanged. After placing an
  open order that is not yet FILLED the controller waits for the signal with a timeout of
  10 seconds and then reads the order status, whether the signal came or not.
\<close>

theorem C6_fill_signal:
  "order_update_handler cfg message st =
     st\<lparr>order_filled_event :=
          order_filled_event st
          \<or> (\<exists>order others. message = Message ''ORDER_UPDATE'' (order # others)
                \<and> w_contractId order = Some (contract_id cfg)
                \<and> w_status order = Some ''FILLED''
                \<and> w_side order \<noteq> Some (upper (close_order_side cfg)))\<rparr>
   \<and> (place_open_order cc (contract_id cfg) (quantity cfg)
         (trade_direction_or_default cfg dir) opens = (StatusOk d, calls)
       \<and> status d \<noteq> Some ''FILLED'' \<longrightarrow>
       (\<exists>rest. snd (snd (place_and_monitor_open_order cfg cc st now dir opens fill_signalled
                     info1 cancel info2 closes)) =
               calls @ [WaitOrderFilledEvent 10, GetOrderById (order_id d)] @ rest))"
proof -
  have 1: "order_update_handler cfg message st =
     st\<lparr>order_filled_event :=
          order_filled_event st
          \<or> (\<exists>order others. message = Message ''ORDER_UPDATE'' (order # others)
                \<and> w_contractId order = Some (contract_id cfg)
                \<and> w_status order = Some ''FILLED''
                \<and> w_side order \<noteq> Some (upper (close_order_side cfg)))\<rparr>"
    by (cases message)
      (auto simp: order_update_handler_def Let_def split: list.splits)
  have 2: "place_open_order cc (contract_id cfg) (quantity cfg)
         (trade_direction_or_default cfg dir) opens = (StatusOk d, calls)
       \<and> status d \<noteq> Some ''FILLED'' \<longrightarrow>
       (\<exists>rest. snd (snd (place_and_monitor_open_order cfg cc st now dir opens fill_signalled
                     info1 cancel info2 closes)) =
               calls @ [WaitOrderFilledEvent 10, GetOrderById (order_id d)] @ rest)"
  proof
    assume a: "place_open_order cc (contract_id cfg) (quantity cfg)
         (trade_direction_or_default cfg dir) opens = (StatusOk d, calls)
       \<and> status d \<noteq> Some ''FILLED''"
    let ?st2 = "st\<lparr>order_filled_event := False, last_open_order_time := now,
        order_filled_event := fill_signalled\<rparr>"
    obtain rest where r: "snd (snd (handle_order_result cfg cc ?st2 (order_id d) info1 cancel
        info2 closes)) = GetOrderById (order_id d) # rest"
      using handle_order_result_polls_first by blast
    have "snd (snd (place_and_monitor_open_order cfg cc st now dir opens fill_signalled
                     info1 cancel info2 closes)) =
        calls @ [WaitOrderFilledEvent 10] @
        snd (snd (handle_order_result cfg cc ?st2 (order_id d) info1 cancel info2 closes))"
      using a by (simp add: place_and_monitor_open_order_def Let_def split_def)
    with r show "\<exists>rest. snd (snd (place_and_monitor_open_order cfg cc st now dir opens
        fill_signalled info1 cancel info2 closes)) =
        calls @ [WaitOrderFilledEvent 10, GetOrderById (order_id d)] @ rest"
      by simp
  qed
  from 1 2 show ?thesis by (rule conjI)
qed

theorem C6_fill_signal_witness:
  "order_filled_event (order_update_handler
      \<lparr>contract_id = ''10000001'', quantity = 0.01, take_profit_percentage = 0.003,
        direction = ''buy'', max_orders = 6, wait_time = 10\<rparr>
      (Message ''ORDER_UPDATE'' [\<lparr>w_contractId = Some ''10000001'', w_id = Some ''o1'',
         w_status = Some ''FILLED'', w_side = Some ''BUY''\<rparr>])
      \<lparr>active_close_orders = [], last_close_orders = 0, last_open_order_time = 0,
        last_log_time = 0, current_order_status = ''PENDING'', order_filled_event = False,
        shutdown_requested = False\<rparr>)
   \<and> (\<exists>rest. snd (snd (place_and_monitor_open_order
      \<lparr>contract_id = ''10000001'', quantity = 0.01, take_profit_percentage = 0.003,
        direction = ''buy'', max_orders = 6, wait_time = 10\<rparr>
      \<lparr>price_delta = 0.1, step_size = 0.1\<rparr>
      \<lparr>active_close_orders = [], last_close_orders = 0, last_open_order_time = 0,
        last_log_time = 0, current_order_status = ''PENDING'', order_filled_event = False,
        shutdown_requested = False\<rparr>
      5 None
      (\<lambda>i. \<lparr>at_book = BookEntry [Some 100] [Some 100.1], at_created = CreateData (Some ''o1''),
            at_info = InfoData [\<lparr>od_status = Some ''OPEN'', od_price = Num 100,
              od_cumFillSize = Num 0, od_side = Some ''BUY''\<rparr>]\<rparr>)
      False InfoRaises CancelRaises InfoRaises
      (\<lambda>i. \<lparr>at_book = BookRaises, at_created = CreateRaises, at_info = InfoRaises\<rparr>))) =
     [GetOrderBookDepth, CreateLimitOrder ''10000001'' 0.01 100 BUY True, GetOrderById ''o1'']
     @ [WaitOrderFilledEvent 10, GetOrderById ''o1''] @ rest)"
proof -
  let ?cfg = "\<lparr>contract_id = ''10000001'', quantity = 0.01, take_profit_percentage = 0.003,
        direction = ''buy'', max_orders = 6, wait_time = 10\<rparr>"
  let ?cc = "\<lparr>price_delta = 0.1, step_size = 0.1\<rparr>"
  let ?st = "\<lparr>active_close_orders = [], last_close_orders = 0, last_open_order_time = 0,
        last_log_time = 0, current_order_status = ''PENDING'', order_filled_event = False,
        shutdown_requested = False\<rparr>"
  let ?msg = "Message ''ORDER_UPDATE'' [\<lparr>w_contractId = Some ''10000001'', w_id = Some ''o1'',
         w_status = Some ''FILLED'', w_side = Some ''BUY''\<rparr>]"
  let ?acc = "\<lparr>at_book = BookEntry [Some 100] [Some 100.1], at_created = CreateData (Some ''o1''),
            at_info = InfoData [\<lparr>od_status = Some ''OPEN'', od_price = Num 100,
              od_cumFillSize = Num 0, od_side = Some ''BUY''\<rparr>]\<rparr>"
  let ?closes = "\<lambda>i::nat. \<lparr>at_book = BookRaises, at_created = CreateRaises, at_info = InfoRaises\<rparr>"
  let ?d = "\<lparr>order_id = ''o1'', side = SideValue BUY, size = 0.01, price = 100,
       status = Some ''OPEN''\<rparr>"
  let ?calls = "[GetOrderBookDepth, CreateLimitOrder ''10000001'' 0.01 100 BUY True,
      GetOrderById ''o1'']"
  have u: "upper ''sell'' = ''SELL''"
    by (simp add: upper_def upper_char_def)
  have e: "\<exists>order others. ?msg = Message ''ORDER_UPDATE'' (order # others)
                \<and> w_contractId order = Some (contract_id ?cfg)
                \<and> w_status order = Some ''FILLED''
                \<and> w_side order \<noteq> Some (upper (close_order_side ?cfg))"
    by (simp add: close_order_side_def u)
  have a: "order_filled_event (order_update_handler ?cfg ?msg ?st)"
    unfolding C6_fill_signal [of ?cfg ?msg ?st, THEN conjunct1] using e by simp
  have p: "open_order_price ?cc ''buy'' 100 100.1 = 100"
    by (simp add: open_order_price_def round_price_to_step_def py_round_def
        py_round_digits_def)
  have acc: "accepted ((\<lambda>i. ?acc) 0)"
    by (simp add: accepted_def complete_round_def reported_status_def)
  have o: "place_open_order ?cc (contract_id ?cfg) (quantity ?cfg)
      (trade_direction_or_default ?cfg None) (\<lambda>i. ?acc) = (StatusOk ?d, ?calls)"
    unfolding place_open_order_def
    using accepted_run [of 0 0 0 "\<lambda>i. ?acc" ?cc "''10000001''" "0.01" "''buy''"] acc p
    by (simp add: max_retries_def trade_direction_or_default_def open_round_calls_def
        open_order_side_def reported_status_def)
  have h: "place_open_order ?cc (contract_id ?cfg) (quantity ?cfg)
      (trade_direction_or_default ?cfg None) (\<lambda>i. ?acc) = (StatusOk ?d, ?calls)
      \<and> status ?d \<noteq> Some ''FILLED''"
    using o by simp
  have b: "\<exists>rest. snd (snd (place_and_monitor_open_order ?cfg ?cc ?st 5 None (\<lambda>i. ?acc) False
      InfoRaises CancelRaises InfoRaises ?closes)) =
      ?calls @ [WaitOrderFilledEvent 10, GetOrderById (order_id ?d)] @ rest"
    using C6_fill_signal [THEN conjunct2, THEN mp, OF h] .
  then have b': "\<exists>rest. snd (snd (place_and_monitor_open_order ?cfg ?cc ?st 5 None (\<lambda>i. ?acc)
      False InfoRaises CancelRaises InfoRaises ?closes)) =
      ?calls @ [WaitOrderFilledEvent 10, GetOrderById ''o1''] @ rest"
    by simp
  from a b' show ?thesis by (rule conjI)
qed

subsection \<open>Take-profit close order\<close>

lemma lower_buy_sell: "lower ''buy'' = ''buy''" "lower ''sell'' = ''sell''"
  "lower ''BUY'' = ''buy''" "lower ''SELL'' = ''sell''"
  by (simp_all add: lower_def lower_char_def)

lemma close_attempt_complete:
  assumes "complete_round a"
  shows "\<exists>out rest. close_attempt cc cid qty p sd a =
     (out, [GetOrderBookDepth,
            CreateLimitOrder cid qty
              (close_order_price cc p sd (best_bid_of (at_book a)) (best_ask_of (at_book a)))
              (close_order_side_of sd) True] @ rest)"
proof -
  from assms obtain bb bs ba as i where "at_book a = BookEntry (Some bb # bs) (Some ba # as)"
    "bb > 0" "ba > 0" "at_created a = CreateData (Some i)" "i \<noteq> []"
    by (rule complete_roundE)
  then show ?thesis
    by (auto simp: close_attempt_def close_submitted_def Let_def split: option.splits)
qed

lemma place_close_order_first_round:
  assumes "complete_round (responses 0)"
  shows "\<exists>rest. snd (place_close_order cc cid qty p sd responses) =
     [GetOrderBookDepth,
      CreateLimitOrder cid qty
        (close_order_price cc p sd (best_bid_of (at_book (responses 0)))
           (best_ask_of (at_book (responses 0))))
        (close_order_side_of sd) True] @ rest"
proof -
  from close_attempt_complete [OF assms, of cc cid qty p sd]
  obtain out rest where a: "close_attempt cc cid qty p sd (responses 0) =
     (out, [GetOrderBookDepth,
            CreateLimitOrder cid qty
              (close_order_price cc p sd (best_bid_of (at_book (responses 0)))
                 (best_ask_of (at_book (responses 0))))
              (close_order_side_of sd) True] @ rest)"
    by blast
  obtain r more where m: "place_close_order_from cc cid qty p sd responses (Suc 0) = (r, more)"
    by (cases "place_close_order_from cc cid qty p sd responses (Suc 0)") auto
  show ?thesis
    unfolding place_close_order_def
    by (cases out)
      (simp_all add: place_close_order_from.simps [of cc cid qty p sd responses 0] a m
        max_retries_def)
qed

lemma close_order_is_take_profit:
  assumes "s = ''buy'' \<or> s = ''sell''"
  shows "CreateLimitOrder cid qty
        (close_order_price cc (snd (take_profit_order cfg s p))
           (fst (take_profit_order cfg s p)) best_bid best_ask)
        (close_order_side_of (fst (take_profit_order cfg s p))) True =
     take_profit_submission cid (take_profit_percentage cfg) cc s p qty best_bid best_ask"
  using assms
  by (auto simp: take_profit_order_def take_profit_submission_def close_order_price_def
      close_order_side_of_def lower_buy_sell)

lemma place_close_order_returns:
  assumes "close_attempt cc cid qty p sd (responses 0) = (Return r, calls)"
  shows "place_close_order cc cid qty p sd responses = (r, calls)"
  unfolding place_close_order_def
  by (simp add: place_close_order_from.simps [of cc cid qty p sd responses 0] assms
      max_retries_def)

lemma filled_buy_run:
  assumes "close_order_price cc (P * (1 + tp)) ''sell'' bb ba = px"
    and "bb > 0" and "ba > 0" and "P > 0"
  shows "snd (snd (handle_order_result
      \<lparr>contract_id = ''10000001'', quantity = 0.01, take_profit_percentage = tp,
        direction = ''buy'', max_orders = 6, wait_time = 10\<rparr>
      cc st ''o1''
      (InfoData [\<lparr>od_status = Some ''FILLED'', od_price = Num P,
         od_cumFillSize = Num 0.01, od_side = Some ''BUY''\<rparr>])
      CancelData InfoRaises
      (\<lambda>i. \<lparr>at_book = BookEntry [Some bb] [Some ba], at_created = CreateData (Some ''c1''),
            at_info = InfoData [\<lparr>od_status = Some ''OPEN'', od_price = Num px,
              od_cumFillSize = Num 0, od_side = Some ''SELL''\<rparr>]\<rparr>)))
   = [GetOrderById ''o1'', GetOrderBookDepth,
      CreateLimitOrder ''10000001'' 0.01 px SELL True, GetOrderById ''c1'']"
proof -
  let ?closes = "\<lambda>i::nat. \<lparr>at_book = BookEntry [Some bb] [Some ba],
            at_created = CreateData (Some ''c1''),
            at_info = InfoData [\<lparr>od_status = Some ''OPEN'', od_price = Num px,
              od_cumFillSize = Num 0, od_side = Some ''SELL''\<rparr>]\<rparr>"
  have "close_attempt cc ''10000001'' 0.01 (P * (1 + tp)) ''sell'' (?closes 0) =
      (Return (StatusOk \<lparr>order_id = ''c1'', side = SideText ''sell'', size = 0.01,
         price = px, status = Some ''OPEN''\<rparr>),
       [GetOrderBookDepth, CreateLimitOrder ''10000001'' 0.01 px SELL True,
         GetOrderById ''c1''])"
    using assms by (simp add: close_attempt_def close_submitted_def close_order_side_of_def
        lower_buy_sell)
  then have "place_close_order cc ''10000001'' 0.01 (P * (1 + tp)) ''sell'' ?closes =
      (StatusOk \<lparr>order_id = ''c1'', side = SideText ''sell'', size = 0.01,
         price = px, status = Some ''OPEN''\<rparr>,
       [GetOrderBookDepth, CreateLimitOrder ''10000001'' 0.01 px SELL True,
         GetOrderById ''c1''])"
    by (rule place_close_order_returns)
  then show ?thesis
    using assms(4)
    by (simp add: handle_order_result_def reported_side_def lower_buy_sell Let_def split_def
        take_profit_order_def)
qed

text \<open>
  C5, as stated, fails: the close order is not submitted at \<open>P \<times> (1 + takeProfitFraction)\<close>
  itself. \<^verbatim>\<open>place_close_order\<close> rounds the price to the price step of the contract, and
  moves it when it would cross the book. A buy filled at 100.01 with a fraction of 0.3
  percent and a step of 0.01 is closed at 100.31, not at 100.31003; a buy filled at 100 with
  the best bid at 101 by then is closed at 101.1, not at 100.3.
\<close>

theorem C5_counterexample:
  "snd (snd (handle_order_result
      \<lparr>contract_id = ''10000001'', quantity = 0.01, take_profit_percentage = 0.003,
        direction = ''buy'', max_orders = 6, wait_time = 10\<rparr>
      \<lparr>price_delta = 0.01, step_size = 0.01\<rparr>
      \<lparr>active_close_orders = [], last_close_orders = 0, last_open_order_time = 0,
        last_log_time = 0, current_order_status = ''PENDING'', order_filled_event = True,
        shutdown_requested = False\<rparr>
      ''o1''
      (InfoData [\<lparr>od_status = Some ''FILLED'', od_price = Num 100.01,
         od_cumFillSize = Num 0.01, od_side = Some ''BUY''\<rparr>])
      CancelData InfoRaises
      (\<lambda>i. \<lparr>at_book = BookEntry [Some 100] [Some 100.02], at_created = CreateData (Some ''c1''),
            at_info = InfoData [\<lparr>od_status = Some ''OPEN'', od_price = Num 100.31,
              od_cumFillSize = Num 0, od_side = Some ''SELL''\<rparr>]\<rparr>)))
   = [GetOrderById ''o1'', GetOrderBookDepth,
      CreateLimitOrder ''10000001'' 0.01 100.31 SELL True, GetOrderById ''c1'']
   \<and> close_price_spec 0.003 ''buy'' 100.01 = 100.31003
   \<and> snd (snd (handle_order_result
      \<lparr>contract_id = ''10000001'', quantity = 0.01, take_profit_percentage = 0.003,
        direction = ''buy'', max_orders = 6, wait_time = 10\<rparr>
      \<lparr>price_delta = 0.1, step_size = 0.1\<rparr>
      \<lparr>active_close_orders = [], last_close_orders = 0, last_open_order_time = 0,
        last_log_time = 0, current_order_status = ''PENDING'', order_filled_event = True,
        shutdown_requested = False\<rparr>
      ''o1''
      (InfoData [\<lparr>od_status = Some ''FILLED'', od_price = Num 100,
         od_cumFillSize = Num 0.01, od_side = Some ''BUY''\<rparr>])
      CancelData InfoRaises
      (\<lambda>i. \<lparr>at_book = BookEntry [Some 101] [Some 101.1], at_created = CreateData (Some ''c1''),
            at_info = InfoData [\<lparr>od_status = Some ''OPEN'', od_price = Num 101.1,
              od_cumFillSize = Num 0, od_side = Some ''SELL''\<rparr>]\<rparr>)))
   = [GetOrderById ''o1'', GetOrderBookDepth,
      CreateLimitOrder ''10000001'' 0.01 101.1 SELL True, GetOrderById ''c1'']
   \<and> close_price_spec 0.003 ''buy'' 100 = 100.3"
proof -
  have p1: "close_order_price \<lparr>price_delta = 0.01, step_size = 0.01\<rparr> (100.01 * (1 + 0.003))
      ''sell'' 100 100.02 = 100.31"
    by (simp add: close_order_price_def lower_buy_sell round_price_to_step_def py_round_def
        py_round_digits_def)
  have p2: "close_order_price \<lparr>price_delta = 0.1, step_size = 0.1\<rparr> (100 * (1 + 0.003))
      ''sell'' 101 101.1 = 101.1"
    by (simp add: close_order_price_def lower_buy_sell round_price_to_step_def py_round_def
        py_round_digits_def)
  note r1 = filled_buy_run [OF p1]
  note r2 = filled_buy_run [OF p2]
  have 1: "close_price_spec 0.003 ''buy'' 100.01 = 100.31003"
    by (simp add: close_price_spec_def)
  have 2: "close_price_spec 0.003 ''buy'' 100 = 100.3"
    by (simp add: close_price_spec_def)
  show ?thesis
    by (intro conjI r1 r2 1 2) simp_all
qed

text \<open>
  C5 (amended): when the monitored open order is found FILLED at a price \<open>P > 0\<close>, or,
  after the cancel that follows the wait, with a filled quantity above 0, and the exchange
  reports the side buy or sell for it, the bot requests the close order on the opposite
  side with the target price \<open>P \<times> (1 + takeProfitFraction)\<close> after a buy and
  \<open>P \<times> (1 - takeProfitFraction)\<close> after a sell, whatever the configured direction, for
  the configured quantity after a full fill and for the filled quantity after a partial
  one. With a readable book the order submitted is post-only, on that side and of that
  size, at the target rounded to the price step, or, when the target would cross the book,
  at one price delta beyond the best bid or ask, rounded.
\<close>

theorem C5_take_profit_close_order:
  assumes "reported_side d = ''buy'' \<or> reported_side d = ''sell''"
    and "complete_round (closes 0)"
  shows "take_profit_order cfg (reported_side d) P =
      (if reported_side d = ''buy'' then (''sell'', P * (1 + take_profit_percentage cfg))
       else (''buy'', P * (1 - take_profit_percentage cfg)))
    \<and> (get_order_info info1 = Some d \<and> od_status d = Some ''FILLED''
        \<and> float_get (od_price d) 0 = Some P \<and> P > 0 \<longrightarrow>
        (\<exists>rest. snd (snd (handle_order_result cfg cc st oid info1 cancel info2 closes)) =
           [GetOrderById oid, GetOrderBookDepth,
            take_profit_submission (contract_id cfg) (take_profit_percentage cfg) cc
              (reported_side d) P (quantity cfg)
              (best_bid_of (at_book (closes 0))) (best_ask_of (at_book (closes 0)))] @ rest))
    \<and> (get_order_info info1 = Some d1
        \<and> (od_status d1 = Some ''OPEN'' \<or> od_status d1 = Some ''PARTIALLY_FILLED'')
        \<and> get_order_info info2 = Some d
        \<and> float_get (od_cumFillSize d) 0 = Some F \<and> F > 0
        \<and> float_get (od_price d) 0 = Some P \<longrightarrow>
        (\<exists>rest. snd (snd (handle_order_result cfg cc st oid info1 cancel info2 closes)) =
           [GetOrderById oid, CancelOrder oid, GetOrderById oid, GetOrderBookDepth,
            take_profit_submission (contract_id cfg) (take_profit_percentage cfg) cc
              (reported_side d) P F
              (best_bid_of (at_book (closes 0))) (best_ask_of (at_book (closes 0)))] @ rest))"
proof -
  let ?s = "reported_side d"
  let ?side = "fst (take_profit_order cfg ?s P)"
  let ?target = "snd (take_profit_order cfg ?s P)"
  let ?bb = "best_bid_of (at_book (closes 0))"
  let ?ba = "best_ask_of (at_book (closes 0))"
  have 1: "take_profit_order cfg ?s P =
      (if ?s = ''buy'' then (''sell'', P * (1 + take_profit_percentage cfg))
       else (''buy'', P * (1 - take_profit_percentage cfg)))"
    using assms(1) by (auto simp: take_profit_order_def)
  have sub: "\<exists>rest. snd (place_close_order cc (contract_id cfg) qty ?target ?side closes) =
      [GetOrderBookDepth,
       take_profit_submission (contract_id cfg) (take_profit_percentage cfg) cc ?s P qty
         ?bb ?ba] @ rest" for qty
    using place_close_order_first_round [where responses = closes, OF assms(2),
        of cc "contract_id cfg" qty ?target ?side]
    unfolding close_order_is_take_profit [OF assms(1)] .
  have 2: "get_order_info info1 = Some d \<and> od_status d = Some ''FILLED''
        \<and> float_get (od_price d) 0 = Some P \<and> P > 0 \<longrightarrow>
        (\<exists>rest. snd (snd (handle_order_result cfg cc st oid info1 cancel info2 closes)) =
           [GetOrderById oid, GetOrderBookDepth,
            take_profit_submission (contract_id cfg) (take_profit_percentage cfg) cc
              ?s P (quantity cfg) ?bb ?ba] @ rest)"
  proof
    assume a: "get_order_info info1 = Some d \<and> od_status d = Some ''FILLED''
        \<and> float_get (od_price d) 0 = Some P \<and> P > 0"
    then have "snd (snd (handle_order_result cfg cc st oid info1 cancel info2 closes)) =
        GetOrderById oid #
        snd (place_close_order cc (contract_id cfg) (quantity cfg) ?target ?side closes)"
      by (simp add: handle_order_result_def Let_def split_def)
    with sub [of "quantity cfg"]
    show "\<exists>rest. snd (snd (handle_order_result cfg cc st oid info1 cancel info2 closes)) =
           [GetOrderById oid, GetOrderBookDepth,
            take_profit_submission (contract_id cfg) (take_profit_percentage cfg) cc
              ?s P (quantity cfg) ?bb ?ba] @ rest"
      by auto
  qed
  have 3: "get_order_info info1 = Some d1
        \<and> (od_status d1 = Some ''OPEN'' \<or> od_status d1 = Some ''PARTIALLY_FILLED'')
        \<and> get_order_info info2 = Some d
        \<and> float_get (od_cumFillSize d) 0 = Some F \<and> F > 0
        \<and> float_get (od_price d) 0 = Some P \<longrightarrow>
        (\<exists>rest. snd (snd (handle_order_result cfg cc st oid info1 cancel info2 closes)) =
           [GetOrderById oid, CancelOrder oid, GetOrderById oid, GetOrderBookDepth,
            take_profit_submission (contract_id cfg) (take_profit_percentage cfg) cc
              ?s P F ?bb ?ba] @ rest)"
  proof
    assume a: "get_order_info info1 = Some d1
        \<and> (od_status d1 = Some ''OPEN'' \<or> od_status d1 = Some ''PARTIALLY_FILLED'')
        \<and> get_order_info info2 = Some d
        \<and> float_get (od_cumFillSize d) 0 = Some F \<and> F > 0
        \<and> float_get (od_price d) 0 = Some P"
    then have "snd (snd (handle_order_result cfg cc st oid info1 cancel info2 closes)) =
        [GetOrderById oid, CancelOrder oid, GetOrderById oid] @
        snd (place_close_order cc (contract_id cfg) F ?target ?side closes)"
      by (auto simp: handle_order_result_def Let_def split_def)
    with sub [of F]
    show "\<exists>rest. snd (snd (handle_order_result cfg cc st oid info1 cancel info2 closes)) =
           [GetOrderById oid, CancelOrder oid, GetOrderById oid, GetOrderBookDepth,
            take_profit_submission (contract_id cfg) (take_profit_percentage cfg) cc
              ?s P F ?bb ?ba] @ rest"
      by auto
  qed
  from 1 2 3 show ?thesis by blast
qed

theorem C5_take_profit_close_order_witness:
  "\<exists>rest. snd (snd (handle_order_result
      \<lparr>contract_id = ''10000001'', quantity = 0.01, take_profit_percentage = 0.003,
        direction = ''sell'', max_orders = 6, wait_time = 10\<rparr>
      \<lparr>price_delta = 0.1, step_size = 0.1\<rparr>
      \<lparr>active_close_orders = [], last_close_orders = 0, last_open_order_time = 0,
        last_log_time = 0, current_order_status = ''PENDING'', order_filled_event = True,
        shutdown_requested = False\<rparr>
      ''o1''
      (InfoData [\<lparr>od_status = Some ''FILLED'', od_price = Num 100,
         od_cumFillSize = Num 0.01, od_side = Some ''BUY''\<rparr>])
      CancelData InfoRaises
      (\<lambda>i. \<lparr>at_book = BookEntry [Some 99.9] [Some 100], at_created = CreateData (Some ''c1''),
            at_info = InfoData [\<lparr>od_status = Some ''OPEN'', od_price = Num 100.3,
              od_cumFillSize = Num 0, od_side = Some ''SELL''\<rparr>]\<rparr>)))
   = [GetOrderById ''o1'', GetOrderBookDepth,
      CreateLimitOrder ''10000001'' 0.01 100.3 SELL True] @ rest"
proof -
  let ?cfg = "\<lparr>contract_id = ''10000001'', quantity = 0.01, take_profit_percentage = 0.003,
        direction = ''sell'', max_orders = 6, wait_time = 10\<rparr>"
  let ?cc = "\<lparr>price_delta = 0.1, step_size = 0.1\<rparr>"
  let ?st = "\<lparr>active_close_orders = [], last_close_orders = 0, last_open_order_time = 0,
        last_log_time = 0, current_order_status = ''PENDING'', order_filled_event = True,
        shutdown_requested = False\<rparr>"
  let ?d = "\<lparr>od_status = Some ''FILLED'', od_price = Num 100,
         od_cumFillSize = Num 0.01, od_side = Some ''BUY''\<rparr>"
  let ?closes = "\<lambda>i::nat. \<lparr>at_book = BookEntry [Some 99.9] [Some 100],
            at_created = CreateData (Some ''c1''),
            at_info = InfoData [\<lparr>od_status = Some ''OPEN'', od_price = Num 100.3,
              od_cumFillSize = Num 0, od_side = Some ''SELL''\<rparr>]\<rparr>"
  have s: "reported_side ?d = ''buy''"
    by (simp add: reported_side_def lower_buy_sell)
  then have h1: "reported_side ?d = ''buy'' \<or> reported_side ?d = ''sell''" ..
  have h2: "complete_round (?closes 0)"
    by (simp add: complete_round_def)
  have h3: "get_order_info (InfoData [?d]) = Some ?d \<and> od_status ?d = Some ''FILLED''
        \<and> float_get (od_price ?d) 0 = Some 100 \<and> (100::real) > 0"
    by simp
  have v: "take_profit_submission (contract_id ?cfg) (take_profit_percentage ?cfg) ?cc
      (reported_side ?d) 100 (quantity ?cfg)
      (best_bid_of (at_book (?closes 0))) (best_ask_of (at_book (?closes 0))) =
      CreateLimitOrder ''10000001'' 0.01 100.3 SELL True"
    unfolding s
    by (simp add: take_profit_submission_def round_price_to_step_def py_round_def
        py_round_digits_def)
  show ?thesis
    using C5_take_profit_close_order [OF h1 h2, THEN conjunct2, THEN conjunct1, THEN mp, OF h3,
        of ?cfg ?cc ?st "''o1''" CancelData InfoRaises]
    unfolding v .
qed

end
